theory Spec2Isabelle
  imports Complex_Main
begin

section \<open>JavaScript numbers\<close>

text \<open>
  The script \<^verbatim>\<open>src/style.js\<close> computes with JavaScript numbers. The embedding keeps the one
  special value the script can meet, \<open>NaN\<close>, and idealises every other number as a real:
  rounding errors of IEEE doubles and the two infinities are outside the model. The one
  place of the script where a rounding error can turn a number into \<open>NaN\<close> is the distance
  function; the note after \<open>calculateDistance\<close> says where the idealisation holds.
  \<open>undefined\<close> behaves like \<open>NaN\<close> in every arithmetic position the script puts it in, so a
  missing array element or object property is \<open>NaN\<close> as well.
\<close>

datatype jsnum = NaN | Num real

fun js_lift :: "(real \<Rightarrow> real) \<Rightarrow> jsnum \<Rightarrow> jsnum" where
  "js_lift f (Num x) = Num (f x)"
| "js_lift f NaN = NaN"

fun js_lift2 :: "(real \<Rightarrow> real \<Rightarrow> real) \<Rightarrow> jsnum \<Rightarrow> jsnum \<Rightarrow> jsnum" where
  "js_lift2 f (Num x) (Num y) = Num (f x y)"
| "js_lift2 f _ _ = NaN"

definition js_add :: "jsnum \<Rightarrow> jsnum \<Rightarrow> jsnum" where
  "js_add = js_lift2 (+)"

definition js_mul :: "jsnum \<Rightarrow> jsnum \<Rightarrow> jsnum" where
  "js_mul = js_lift2 (*)"

definition js_div_const :: "jsnum \<Rightarrow> real \<Rightarrow> jsnum" where
  \<comment> \<open>Division by a non-zero literal (\<open>/ 1000\<close>, \<open>/ 60\<close>).\<close>
  "js_div_const a k = js_lift (\<lambda>x. x / k) a"

definition Math_round :: "jsnum \<Rightarrow> jsnum" where
  \<comment> \<open>\<open>Math.round\<close>: the nearest integer, a tie going up; \<open>NaN\<close> stays \<open>NaN\<close>.\<close>
  "Math_round = js_lift (\<lambda>x. of_int \<lfloor>x + 1 / 2\<rfloor>)"

definition js_le :: "jsnum \<Rightarrow> jsnum \<Rightarrow> bool" where
  \<comment> \<open>\<open>a <= b\<close>: every comparison with \<open>NaN\<close> is false.\<close>
  "js_le a b = (case (a, b) of (Num x, Num y) \<Rightarrow> x \<le> y | _ \<Rightarrow> False)"

section \<open>Strings\<close>

text \<open>
  A string is a list of \<open>char\<close>; the characters of the page's fields that matter here are
  ASCII. The dash of two notification messages, which is not, is written \<open>-\<close>.
\<close>

definition is_js_space :: "char \<Rightarrow> bool" where
  \<comment> \<open>the white space of \<open>\s\<close>, of \<open>trim\<close> and of \<open>parseFloat\<close>, among the 256 characters of
     \<open>char\<close>: tab, line feed, vertical tab, form feed, carriage return, space, no-break space\<close>
  "is_js_space c = (of_char c \<in> {9, 10, 11, 12, 13, 32, 160 :: nat})"

definition is_digit :: "char \<Rightarrow> bool" where
  \<comment> \<open>\<open>\d\<close>: the characters \<open>0\<close> to \<open>9\<close>\<close>
  "is_digit c = (48 \<le> (of_char c :: nat) \<and> (of_char c :: nat) \<le> 57)"

definition digit_val :: "char \<Rightarrow> nat" where
  "digit_val c = of_char c - 48"

definition digit_char :: "nat \<Rightarrow> char" where
  "digit_char d = ''0123456789'' ! d"

fun digits10 :: "nat \<Rightarrow> string" where
  "digits10 n = (if n < 10 then [digit_char n] else digits10 (n div 10) @ [digit_char (n mod 10)])"

declare digits10.simps [simp del]

definition digits_val :: "string \<Rightarrow> nat" where
  "digits_val s = foldl (\<lambda>a c. 10 * a + digit_val c) 0 s"

definition toFixed6 :: "jsnum \<Rightarrow> string" where
  \<comment> \<open>\<open>x.toFixed(6)\<close>: the integer \<open>n\<close> nearest to \<open>|x| * 10^6\<close> (the larger of two), its decimal
     digits padded with zeros to seven at least, a point before the last six, and the sign
     of a negative \<open>x\<close> in front. The exponent notation of \<open>|x| >= 10^21\<close> is not modelled.\<close>
  "toFixed6 v = (case v of NaN \<Rightarrow> ''NaN'' | Num x \<Rightarrow>
     (let n = nat \<lfloor>\<bar>x\<bar> * 10 ^ 6 + 1 / 2\<rfloor>;
          m = digits10 n;
          m = replicate (7 - length m) (CHR ''0'') @ m;
          a = take (length m - 6) m;
          b = drop (length m - 6) m
      in (if x < 0 then ''-'' else []) @ a @ ''.'' @ b))"

definition read_sign :: "string \<Rightarrow> bool \<times> string" where
  "read_sign s = (case s of [] \<Rightarrow> (False, s) | c # r \<Rightarrow>
      if c = CHR ''-'' then (True, r) else if c = CHR ''+'' then (False, r) else (False, s))"

definition read_exponent :: "string \<Rightarrow> int" where
  "read_exponent s = (case s of [] \<Rightarrow> 0 | c # r \<Rightarrow>
      if c = CHR ''e'' \<or> c = CHR ''E'' then
        (let (neg, d) = read_sign r; ds = takeWhile is_digit d
         in if ds = [] then 0 else (if neg then - int (digits_val ds) else int (digits_val ds)))
      else 0)"

definition parseFloat :: "string \<Rightarrow> jsnum" where
  \<comment> \<open>the longest prefix, after leading white space, that is a decimal literal: a sign,
     digits, a point and digits, an exponent; \<open>NaN\<close> when there is no digit. The literal
     \<open>Infinity\<close> reads as \<open>NaN\<close> here, the model having no infinities.\<close>
  "parseFloat s =
    (let (neg, u) = read_sign (dropWhile is_js_space s);
         ip = takeWhile is_digit u;
         r1 = dropWhile is_digit u;
         (fp, r2) = (case r1 of [] \<Rightarrow> ([], r1) | c # r \<Rightarrow>
                       if c = CHR ''.'' then (takeWhile is_digit r, dropWhile is_digit r) else ([], r1))
     in if ip = [] \<and> fp = [] then NaN
        else Num ((if neg then - 1 else 1)
                  * (real (digits_val ip) + real (digits_val fp) / 10 ^ length fp)
                  * 10 powi read_exponent r2))"

fun split_comma :: "string \<Rightarrow> string list" where
  \<comment> \<open>\<open>s.split(',')\<close>\<close>
  "split_comma [] = [[]]"
| "split_comma (c # cs) =
     (if c = CHR '','' then [] # split_comma cs
      else (case split_comma cs of [] \<Rightarrow> [[c]] | x # xs \<Rightarrow> (c # x) # xs))"

definition trim :: "string \<Rightarrow> string" where
  "trim s = rev (dropWhile is_js_space (rev (dropWhile is_js_space s)))"

definition elem :: "jsnum list \<Rightarrow> nat \<Rightarrow> jsnum" where
  \<comment> \<open>\<open>p[i]\<close>: \<open>undefined\<close>, here \<open>NaN\<close>, past the end\<close>
  "elem xs i = (if i < length xs then xs ! i else NaN)"

definition parse_coords :: "string \<Rightarrow> jsnum \<times> jsnum" where
  \<comment> \<open>\<open>coords.split(',').map(s => parseFloat(s.trim()))\<close>, elements 0 and 1\<close>
  "parse_coords s = (let p = map (\<lambda>t. parseFloat (trim t)) (split_comma s) in (elem p 0, elem p 1))"

definition round6 :: "real \<Rightarrow> real" where
  \<comment> \<open>\<open>x\<close> rounded to six decimals, a tie away from zero\<close>
  "round6 x = (if x < 0 then - 1 else 1) * of_int \<lfloor>\<bar>x\<bar> * 10 ^ 6 + 1 / 2\<rfloor> / 10 ^ 6"

definition coords_text :: "string \<Rightarrow> string \<Rightarrow> string" where
  \<comment> \<open>the template \<open>`${lat}, ${lng}`\<close>\<close>
  "coords_text la lo = la @ '', '' @ lo"

section \<open>Rates and the two cost expressions\<close>

definition BASE_FEE :: real where
  "BASE_FEE = 3000"

definition RATE_MOTORCYCLE :: real where
  "RATE_MOTORCYCLE = 1500"

definition RATE_CAR :: real where
  "RATE_CAR = 4000"

definition rate_for :: "string \<Rightarrow> real" where
  \<comment> \<open>\<open>vehicleType === 'motorcycle' ? RATE_MOTORCYCLE : RATE_CAR\<close>\<close>
  "rate_for vehicleType = (if vehicleType = ''motorcycle'' then RATE_MOTORCYCLE else RATE_CAR)"

definition primary_cost :: "string \<Rightarrow> jsnum \<Rightarrow> jsnum" where
  \<comment> \<open>\<open>Math.round(BASE_FEE + Math.round(distanceKm) * rate)\<close>, the routed branch\<close>
  "primary_cost vehicleType distanceKm =
     Math_round (js_add (Num BASE_FEE) (js_mul (Math_round distanceKm) (Num (rate_for vehicleType))))"

definition fallback_cost :: "string \<Rightarrow> jsnum \<Rightarrow> jsnum" where
  \<comment> \<open>\<open>Math.round(BASE_FEE + straightKm * rate)\<close>, the straight-line branch\<close>
  "fallback_cost vehicleType straightKm =
     Math_round (js_add (Num BASE_FEE) (js_mul straightKm (Num (rate_for vehicleType))))"

section \<open>Great-circle distance\<close>

definition Math_atan2 :: "real \<Rightarrow> real \<Rightarrow> real" where
  \<comment> \<open>\<open>Math.atan2(y, x)\<close>: the angle of the point \<open>(x, y)\<close>, in \<open>(-pi, pi]\<close>\<close>
  "Math_atan2 y x =
     (if 0 < x then arctan (y / x)
      else if x < 0 then (if 0 \<le> y then arctan (y / x) + pi else arctan (y / x) - pi)
      else if 0 < y then pi / 2 else if y < 0 then - pi / 2 else 0)"

definition haversine_a :: "real \<Rightarrow> real \<Rightarrow> real \<Rightarrow> real \<Rightarrow> real" where
  "haversine_a lat1 lon1 lat2 lon2 =
     (let dLat = (lat2 - lat1) * pi / 180;
          dLon = (lon2 - lon1) * pi / 180
      in sin (dLat / 2) * sin (dLat / 2) +
         cos (lat1 * pi / 180) * cos (lat2 * pi / 180) *
         sin (dLon / 2) * sin (dLon / 2))"

definition calculateDistance_real :: "real \<Rightarrow> real \<Rightarrow> real \<Rightarrow> real \<Rightarrow> real" where
  "calculateDistance_real lat1 lon1 lat2 lon2 =
     (let R = 6371;
          a = haversine_a lat1 lon1 lat2 lon2;
          c = 2 * Math_atan2 (sqrt a) (sqrt (1 - a))
      in R * c)"

fun calculateDistance :: "jsnum \<Rightarrow> jsnum \<Rightarrow> jsnum \<Rightarrow> jsnum \<Rightarrow> jsnum" where
  "calculateDistance (Num lat1) (Num lon1) (Num lat2) (Num lon2) =
     Num (calculateDistance_real lat1 lon1 lat2 lon2)"
| "calculateDistance _ _ _ _ = NaN"

text \<open>
  \<open>calculateDistance_real\<close> is the body of \<open>calculateDistance\<close> on four numbers in exact
  arithmetic; a \<open>NaN\<close> argument makes every intermediate value and the result \<open>NaN\<close>.
  \<open>Math.sqrt\<close> is \<open>NaN\<close> below zero. In exact arithmetic the haversine term \<open>a\<close> lies in
  \<open>[0, 1]\<close> (lemma \<open>haversine_a_bounds\<close>), so both square roots are numbers. The script
  computes in IEEE doubles, and there the term of two nearly antipodal points can be
  rounded to a value just above 1: \<open>Math.sqrt(1 - a)\<close> is then \<open>NaN\<close>, and so is the result,
  where \<open>calculateDistance_real\<close> gives a number. The definition is therefore the script's
  function only where the term stays away from 1. That is the case for the points the
  page stores: each lies in the region (lemma \<open>reachable_set_location\<close>), and the term of
  two points of the region is at most \<open>1 / 95\<close> (lemma \<open>haversine_a_region\<close>). What the
  function returns on arbitrary points in double arithmetic, and whether two of its
  results agree within a tolerance, cannot be read off this definition.

  The textbook formula, for comparison: with \<open>hav t = sin\<^sup>2 (t / 2)\<close>, the distance on a
  sphere of radius \<open>R\<close> is \<open>2 R arcsin (sqrt (hav (\<phi>2 - \<phi>1) + cos \<phi>1 cos \<phi>2 hav (\<lambda>2 - \<lambda>1)))\<close>.
\<close>

definition hav :: "real \<Rightarrow> real" where
  "hav t = (sin (t / 2))\<^sup>2"

definition rad :: "real \<Rightarrow> real" where
  "rad d = d * pi / 180"

definition haversine_spec :: "real \<Rightarrow> real \<Rightarrow> real \<Rightarrow> real \<Rightarrow> real" where
  "haversine_spec lat1 lon1 lat2 lon2 =
     2 * 6371 * arcsin (sqrt (hav (rad lat2 - rad lat1)
                              + cos (rad lat1) * cos (rad lat2) * hav (rad lon2 - rad lon1)))"

section \<open>The boundary check\<close>

record latlng =
  lat :: jsnum
  lng :: jsnum

record BoundingRegion =
  south :: real
  west :: real
  north :: real
  east :: real

definition UGANDA_BOUNDS :: BoundingRegion where
  \<comment> \<open>\<open>L.latLngBounds([-1.5, 29.5], [4.9, 35.1])\<close>: south, west, north, east\<close>
  "UGANDA_BOUNDS = \<lparr>south = - 1.5, west = 29.5, north = 4.9, east = 35.1\<rparr>"

definition contains :: "BoundingRegion \<Rightarrow> latlng \<Rightarrow> bool" where
  \<comment> \<open>Modelled from the spec: \<open>UGANDA_BOUNDS.contains\<close> is a method of the map library, which
     is not part of \<^verbatim>\<open>src/\<close>. Section 4.1 of the specification gives the predicate:
     \<open>south <= latitude <= north AND west <= longitude <= east\<close>, false on \<open>NaN\<close>.\<close>
  "contains region point =
     (js_le (Num (south region)) (lat point) \<and> js_le (lat point) (Num (north region)) \<and>
      js_le (Num (west region)) (lng point) \<and> js_le (lng point) (Num (east region)))"

section \<open>The page state\<close>

text \<open>
  The script keeps its state in module variables (\<open>pickupMap\<close>, \<open>pickupMarker\<close>,
  \<open>routeLayer\<close>, ...) and in the elements of the page it reads and writes by id. The record
  \<open>page\<close> holds both. A map variable is \<open>True\<close> once \<open>initMaps\<close> has assigned it; a marker
  variable holds the marker's position once it exists. The three route figures are kept as
  the numbers whose renderings (\<open>toFixed(1) + ' km'\<close>, \<open>+ ' min'\<close>,
  \<open>toLocaleString() + ' UGX'\<close>) the script writes, or as the placeholder \<open>'--'\<close>.
  Map views, popups, the console and the asynchronous address lookup are outside the model:
  none of them writes a field that the modelled functions read.
\<close>

datatype role = Pickup | Delivery

datatype display = DisplayBlock | DisplayNone

datatype route_text = Dashes | Figure jsnum

record payload =
  renders :: bool
  has_bounds :: bool
  segment0 :: "(jsnum \<times> jsnum) option"

datatype layer = GeoJSON payload | Polyline latlng latlng

datatype body = NotJSON | JSON payload

datatype fetch_outcome = Rejected | Response bool body

text \<open>
  \<open>fetch_outcome\<close> is what the routing provider can do to one call that terminates: the
  request is rejected (a network error), or a response arrives with its \<open>ok\<close> flag and a
  body that either is no JSON (\<open>response.json()\<close> rejects) or parses to \<open>data\<close>. Of \<open>data\<close> the
  script uses three things, which \<open>payload\<close> records: whether the map library builds a
  layer from it (\<open>renders\<close>), whether that layer has valid bounds for \<open>fitBounds\<close>
  (\<open>has_bounds\<close>), and \<open>data.features[0].properties.segments[0]\<close>: \<open>None\<close> when reading a
  property of it raises a \<open>TypeError\<close> (a link of the chain is missing), otherwise its
  \<open>distance\<close> and \<open>duration\<close> as numbers, \<open>NaN\<close> for a property that is absent or not
  numeric. A call that never settles is outside the model.
\<close>

record page =
  pickupMap :: bool
  deliveryMap :: bool
  pickupMarker :: "latlng option"
  deliveryMarker :: "latlng option"
  routeLayer :: "layer option"
  pickupLat :: string
  pickupLng :: string
  pickupLink :: string
  pickupLinkHidden :: string
  pickupCoordsHidden :: string
  deliveryLat :: string
  deliveryLng :: string
  deliveryLink :: string
  deliveryLinkHidden :: string
  deliveryCoordsHidden :: string
  vehicleType :: string
  routeSection :: display
  routeDistance :: route_text
  routeDuration :: route_text
  routeCost :: route_text
  notifications :: "string list"

datatype outcome = Completed page | Aborted page

fun page_of :: "outcome \<Rightarrow> page" where
  "page_of (Completed st) = st"
| "page_of (Aborted st) = st"

text \<open>
  A handler that runs to its end is \<open>Completed\<close>; one that an uncaught exception stops is
  \<open>Aborted\<close>, with the page as the exception left it.
\<close>

definition showNotification :: "string \<Rightarrow> page \<Rightarrow> page" where
  \<comment> \<open>the list holds every message shown so far, the latest last\<close>
  "showNotification message st = st\<lparr>notifications := notifications st @ [message]\<rparr>"

definition defaultCenter :: latlng where
  \<comment> \<open>\<open>[0.3476, 32.5825]\<close>, Kampala\<close>
  "defaultCenter = \<lparr>lat = Num 0.3476, lng = Num 32.5825\<rparr>"

definition map_of_role :: "role \<Rightarrow> page \<Rightarrow> bool" where
  \<comment> \<open>\<open>type === 'pickup' ? pickupMap : deliveryMap\<close>\<close>
  "map_of_role type st = (case type of Pickup \<Rightarrow> pickupMap st | Delivery \<Rightarrow> deliveryMap st)"

definition marker_of_role :: "role \<Rightarrow> page \<Rightarrow> latlng option" where
  "marker_of_role type st = (case type of Pickup \<Rightarrow> pickupMarker st | Delivery \<Rightarrow> deliveryMarker st)"

definition coords_of_role :: "role \<Rightarrow> page \<Rightarrow> string" where
  \<comment> \<open>\<open>document.getElementById(type + 'CoordsHidden').value\<close>\<close>
  "coords_of_role type st =
     (case type of Pickup \<Rightarrow> pickupCoordsHidden st | Delivery \<Rightarrow> deliveryCoordsHidden st)"

definition set_marker :: "role \<Rightarrow> latlng \<Rightarrow> page \<Rightarrow> page" where
  \<comment> \<open>\<open>marker.setLatLng(latlng)\<close> on the role's marker\<close>
  "set_marker type p st =
     (case type of Pickup \<Rightarrow> st\<lparr>pickupMarker := Some p\<rparr> | Delivery \<Rightarrow> st\<lparr>deliveryMarker := Some p\<rparr>)"

definition checkRouteAvailability :: "page \<Rightarrow> page" where
  "checkRouteAvailability st =
     (let pickupCoords = pickupCoordsHidden st;
          deliveryCoords = deliveryCoordsHidden st
      in if pickupCoords \<noteq> [] \<and> pickupCoords \<noteq> ''Not set'' \<and>
            deliveryCoords \<noteq> [] \<and> deliveryCoords \<noteq> ''Not set''
         then
           (let p = parse_coords pickupCoords;
                d = parse_coords deliveryCoords
            in if contains UGANDA_BOUNDS \<lparr>lat = fst p, lng = snd p\<rparr> \<and>
                  contains UGANDA_BOUNDS \<lparr>lat = fst d, lng = snd d\<rparr>
               then st\<lparr>routeSection := DisplayBlock\<rparr>
               else st\<lparr>routeSection := DisplayNone\<rparr>)
         else st\<lparr>routeSection := DisplayNone\<rparr>)"

definition mapLink :: "string \<Rightarrow> string \<Rightarrow> string" where
  "mapLink la lo =
     ''https://www.openstreetmap.org/?mlat='' @ la @ ''&mlon='' @ lo @ ''#map=17/'' @ la @ ''/'' @ lo"

definition store_location :: "latlng \<Rightarrow> role \<Rightarrow> page \<Rightarrow> page" where
  \<comment> \<open>what \<open>updateLocation\<close> writes for its \<open>type\<close>: the marker and the five fields\<close>
  "store_location latlng type st =
     (let la = toFixed6 (lat latlng);
          lo = toFixed6 (lng latlng);
          link = mapLink la lo
      in case type of
           Pickup \<Rightarrow> st\<lparr>pickupMarker := Some latlng, pickupLat := la, pickupLng := lo,
                          pickupLink := link, pickupLinkHidden := link,
                          pickupCoordsHidden := coords_text la lo\<rparr>
         | Delivery \<Rightarrow> st\<lparr>deliveryMarker := Some latlng, deliveryLat := la, deliveryLng := lo,
                          deliveryLink := link, deliveryLinkHidden := link,
                          deliveryCoordsHidden := coords_text la lo\<rparr>)"

definition updateLocation :: "latlng \<Rightarrow> role \<Rightarrow> page \<Rightarrow> outcome" where
  \<comment> \<open>\<open>marker.setLatLng\<close> on a marker that does not exist is a \<open>TypeError\<close> before any
     field is written; \<open>map.setView\<close> on a map that does not exist is one after the fields
     are written and before \<open>checkRouteAvailability\<close>.\<close>
  "updateLocation latlng type st =
     (if marker_of_role type st = None then Aborted st
      else
        (let st1 = store_location latlng type st
         in if \<not> map_of_role type st then Aborted st1
            else Completed (checkRouteAvailability st1)))"

definition onMapClick :: "latlng \<Rightarrow> role \<Rightarrow> page \<Rightarrow> outcome" where
  "onMapClick latlng type st =
     (if \<not> contains UGANDA_BOUNDS latlng
      then Completed (showNotification ''Location outside Uganda - pick a point inside Uganda.'' st)
      else updateLocation latlng type st)"

definition onMarkerDragEnd :: "latlng \<Rightarrow> role \<Rightarrow> page \<Rightarrow> outcome" where
  \<comment> \<open>\<open>latlng\<close> is \<open>e.target.getLatLng()\<close>, where the drag left the marker. The map library
     refuses a position with a \<open>NaN\<close> coordinate, which stops the handler.\<close>
  "onMarkerDragEnd latlng type st =
     (let st0 = set_marker type latlng st
      in if \<not> contains UGANDA_BOUNDS latlng
         then
           (let st1 = showNotification ''Marker outside Uganda - resetting to last valid position.'' st0;
                hidden = coords_of_role type st1
            in if hidden \<noteq> [] \<and> hidden \<noteq> ''Not set''
               then (case parse_coords hidden of
                       (Num la, Num lo) \<Rightarrow> Completed (set_marker type \<lparr>lat = Num la, lng = Num lo\<rparr> st1)
                     | _ \<Rightarrow> Aborted st1)
               else Completed (set_marker type defaultCenter st1))
         else updateLocation latlng type st0)"

definition onMarkGeocode :: "latlng \<Rightarrow> role \<Rightarrow> page \<Rightarrow> outcome" where
  \<comment> \<open>the \<open>markgeocode\<close> handler of each map's search box; \<open>latlng\<close> is \<open>e.geocode.center\<close>\<close>
  "onMarkGeocode center type st =
     (if \<not> contains UGANDA_BOUNDS center
      then Completed (showNotification
             ''Search result is outside Uganda - please pick a location inside Uganda.'' st)
      else updateLocation center type st)"

definition onPosition :: "latlng \<Rightarrow> role \<Rightarrow> page \<Rightarrow> outcome" where
  \<comment> \<open>the success callback of \<open>getCurrentLocation\<close>, \<open>latlng\<close> built from \<open>position.coords\<close>\<close>
  "onPosition latlng type st =
     (if \<not> contains UGANDA_BOUNDS latlng
      then Completed (showNotification
             ''Your current location is outside Uganda. Please set a location inside Uganda.'' st)
      else (case updateLocation latlng type st of
              Aborted st1 \<Rightarrow> Aborted st1
            | Completed st1 \<Rightarrow> Completed (showNotification ''Location found successfully!'' st1)))"

definition clearLocation :: "role \<Rightarrow> page \<Rightarrow> page" where
  "clearLocation mapType st =
     (if \<not> map_of_role mapType st \<or> marker_of_role mapType st = None then st
      else
        (let st1 = set_marker mapType defaultCenter st;
             st2 = (case mapType of
                 Pickup \<Rightarrow> st1\<lparr>pickupLat := [], pickupLng := [], pickupLink := [],
                                pickupCoordsHidden := ''Not set''\<rparr>
               | Delivery \<Rightarrow> st1\<lparr>deliveryLat := [], deliveryLng := [], deliveryLink := [],
                                deliveryCoordsHidden := ''Not set''\<rparr>)
         in checkRouteAvailability st2))"

text \<open>
  The script puts its one route layer on both maps (\<open>addTo(pickupMap).addTo(deliveryMap)\<close>).
  The map library keeps a single owner per layer: the second \<open>addTo\<close> makes the delivery map
  the owner, the first \<open>removeLayer\<close> takes the layer off and resets the owner to \<open>null\<close>, and
  the second \<open>removeLayer\<close> then raises a \<open>TypeError\<close> while it detaches the layer from an
  owner that is not there. Taking an existing route layer off both maps therefore always
  raises, at the second call when both maps exist and at the first when one is missing.
\<close>

definition clearRoute :: "page \<Rightarrow> outcome" where
  \<comment> \<open>with a route layer the removal raises before \<open>routeLayer = null\<close> and before any figure
     is reset; without one the three figures are reset\<close>
  "clearRoute st =
     (if routeLayer st \<noteq> None then Aborted st
      else Completed (showNotification ''Route cleared''
             (st\<lparr>routeLayer := None, routeDistance := Dashes, routeDuration := Dashes,
                 routeCost := Dashes\<rparr>)))"

definition initMaps :: "bool \<Rightarrow> bool \<Rightarrow> page \<Rightarrow> page" where
  \<comment> \<open>the two arguments say which map container is visible. \<open>L.map\<close> on a container that
     already holds a map raises; \<open>initMaps\<close> catches that and stops. Every other call of
     the map library in it is taken to succeed.\<close>
  "initMaps pickupVisible deliveryVisible st =
     (if pickupVisible \<and> pickupMap st then st
      else
        (let st1 = (if pickupVisible
                    then st\<lparr>pickupMap := True, pickupMarker := Some defaultCenter\<rparr> else st)
         in if deliveryVisible \<and> deliveryMap st1 then st1
            else
              (let st2 = (if deliveryVisible
                          then st1\<lparr>deliveryMap := True, deliveryMarker := Some defaultCenter\<rparr>
                          else st1)
               in checkRouteAvailability st2)))"

section \<open>Route resolution\<close>

datatype route_source = Primary | Fallback

record RouteResult =
  distanceKm :: jsnum
  durationMin :: jsnum
  costEstimate :: jsnum
  geometry :: layer
  source :: route_source

text \<open>
  \<open>calculateRoute\<close> has no result object of its own: each branch computes the distance, the
  duration and the cost in local constants, draws its layer and writes the three figures.
  \<open>RouteResult\<close> collects the locals of the branch that ran to its end, and \<open>source\<close> names
  that branch: \<open>Primary\<close> for the body of \<open>try\<close>, \<open>Fallback\<close> for the body of \<open>catch\<close>. The
  function returns \<open>None\<close> when it stops at one of its two guards or when the body of
  \<open>catch\<close> itself raises.
\<close>

definition route_fallback ::
  "string \<Rightarrow> jsnum \<Rightarrow> jsnum \<Rightarrow> jsnum \<Rightarrow> jsnum \<Rightarrow> page \<Rightarrow> RouteResult option \<times> page" where
  \<comment> \<open>the body of \<open>catch\<close>. Removing the old layer is wrapped in a \<open>try\<close> of its own, so
     what it raises is dropped. The map library refuses a line through a \<open>NaN\<close> coordinate,
     and \<open>addTo\<close> needs both maps.\<close>
  "route_fallback vehicle pLat pLng dLat dLng st =
     (let straightKm = calculateDistance pLat pLng dLat dLng;
          durationEst = Math_round (js_mul straightKm (Num 3));
          estimatedCost = fallback_cost vehicle straightKm
      in case (pLat, pLng, dLat, dLng) of
           (Num _, Num _, Num _, Num _) \<Rightarrow>
             if pickupMap st \<and> deliveryMap st
             then
               (let line = Polyline \<lparr>lat = pLat, lng = pLng\<rparr> \<lparr>lat = dLat, lng = dLng\<rparr>
                in (Some \<lparr>distanceKm = straightKm, durationMin = durationEst,
                          costEstimate = estimatedCost, geometry = line, source = Fallback\<rparr>,
                    showNotification ''Estimated route shown (straight-line fallback)''
                      (st\<lparr>routeLayer := Some line,
                          routeDistance := Figure straightKm,
                          routeDuration := Figure durationEst,
                          routeCost := Figure (Math_round estimatedCost)\<rparr>)))
             else (None, st)
         | _ \<Rightarrow> (None, st))"

definition route_primary :: "string \<Rightarrow> fetch_outcome \<Rightarrow> page \<Rightarrow> page + RouteResult \<times> page" where
  \<comment> \<open>the body of \<open>try\<close>: \<open>Inl\<close> is the page at the exception that sends control to
     \<open>catch\<close>, \<open>Inr\<close> the result of a run to the end. After a good answer the removal of
     an existing route layer raises, as in \<open>clearRoute\<close>.\<close>
  "route_primary vehicle response st =
     (case response of
        Rejected \<Rightarrow> Inl st
      | Response ok b \<Rightarrow>
          if \<not> ok then Inl st
          else (case b of
             NotJSON \<Rightarrow> Inl st
           | JSON data \<Rightarrow>
               if routeLayer st \<noteq> None then Inl st
               else if \<not> renders data \<or> \<not> (pickupMap st \<and> deliveryMap st) then Inl st
               else
                 (let st1 = st\<lparr>routeLayer := Some (GeoJSON data)\<rparr>
                  in if \<not> has_bounds data then Inl st1
                     else (case segment0 data of
                        None \<Rightarrow> Inl st1
                      | Some (distance, duration) \<Rightarrow>
                          (let distKm = js_div_const distance 1000;
                               durMin = Math_round (js_div_const duration 60);
                               estimatedCost = primary_cost vehicle distKm
                           in Inr (\<lparr>distanceKm = distKm, durationMin = durMin,
                                     costEstimate = estimatedCost, geometry = GeoJSON data,
                                     source = Primary\<rparr>,
                                   showNotification ''Route calculated successfully!''
                                     (st1\<lparr>routeDistance := Figure distKm,
                                          routeDuration := Figure durMin,
                                          routeCost := Figure estimatedCost\<rparr>)))))))"

definition calculateRoute :: "fetch_outcome \<Rightarrow> page \<Rightarrow> RouteResult option \<times> page" where
  "calculateRoute response st =
     (let pickupCoords = pickupCoordsHidden st;
          deliveryCoords = deliveryCoordsHidden st;
          vehicle = vehicleType st
      in if pickupCoords = [] \<or> deliveryCoords = [] \<or>
            pickupCoords = ''Not set'' \<or> deliveryCoords = ''Not set''
         then (None, showNotification
                 ''Please set both pickup and delivery locations inside Uganda first'' st)
         else if vehicle = []
         then (None, showNotification ''Please select a vehicle type first'' st)
         else
           (let (pLat, pLng) = parse_coords pickupCoords;
                (dLat, dLng) = parse_coords deliveryCoords
            in case route_primary vehicle response st of
                 Inr (r, st1) \<Rightarrow> (Some r, st1)
               | Inl st1 \<Rightarrow> route_fallback vehicle pLat pLng dLat dLng st1))"

definition request_coordinates :: "page \<Rightarrow> (jsnum \<times> jsnum) list" where
  \<comment> \<open>the \<open>coordinates\<close> of the request body: \<open>[[pickupLng, pickupLat], [deliveryLng, deliveryLat]]\<close>\<close>
  "request_coordinates st =
     (let (pLat, pLng) = parse_coords (pickupCoordsHidden st);
          (dLat, dLng) = parse_coords (deliveryCoordsHidden st)
      in [(pLng, pLat), (dLng, dLat)])"

section \<open>Phone numbers and the submit handler\<close>

definition strip_prefix :: "string \<Rightarrow> string \<Rightarrow> string option" where
  "strip_prefix p s = (if take (length p) s = p then Some (drop (length p) s) else None)"

definition phone_regex_test :: "string \<Rightarrow> bool" where
  \<comment> \<open>\<open>/^(?:\+256|0|256)7\d{8}$/.test(s)\<close>: one of the three prefixes, then \<open>7\<close>, then
     eight digits, then the end of the input\<close>
  "phone_regex_test s =
     list_ex (\<lambda>p. case strip_prefix p s of
                     None \<Rightarrow> False
                   | Some r \<Rightarrow> (case r of
                        [] \<Rightarrow> False
                      | c # ds \<Rightarrow> c = CHR ''7'' \<and> length ds = 8 \<and> list_all is_digit ds))
       [''+256'', ''0'', ''256'']"

definition ugPhoneValid :: "string \<Rightarrow> bool" where
  \<comment> \<open>\<open>value.replace(/\s|-/g, '')\<close> deletes every white-space character and every hyphen\<close>
  "ugPhoneValid v =
     (if v = [] then False
      else (let cleaned = filter (\<lambda>c. \<not> (is_js_space c \<or> c = CHR ''-'')) v
            in phone_regex_test cleaned))"

record delivery_form =
  senderName :: string
  senderPhone :: string
  senderEmail :: string
  recipientName :: string
  recipientPhone :: string
  packageDescription :: string
  formVehicleType :: string
  pickupLandmark :: string
  deliveryLandmark :: string
  termsAgreement :: bool

datatype submission = Refused string | Sent

definition required_values :: "delivery_form \<Rightarrow> string list" where
  \<comment> \<open>the values of the ids in \<open>required\<close>, in its order\<close>
  "required_values f =
     [senderName f, senderPhone f, senderEmail f, recipientName f, recipientPhone f,
      packageDescription f, formVehicleType f, pickupLandmark f, deliveryLandmark f]"

definition submit :: "delivery_form \<Rightarrow> submission" where
  \<comment> \<open>the submit handler up to its \<open>fetch\<close>: \<open>Sent\<close> is the only outcome in which the request
     to the form's action is made\<close>
  "submit f =
     (if list_ex (\<lambda>v. trim v = []) (required_values f)
      then Refused ''Please complete all required fields including landmarks''
      else if \<not> ugPhoneValid (senderPhone f)
      then Refused ''Sender phone must be a valid Ugandan number (e.g. +2567...)''
      else if \<not> ugPhoneValid (recipientPhone f)
      then Refused ''Recipient phone must be a valid Ugandan number (e.g. +2567...)''
      else if \<not> termsAgreement f
      then Refused ''Please agree to the terms of service and privacy policy''
      else Sent)"

section \<open>Notions of the specification\<close>

text \<open>
  The specification speaks of a location store with one entry per role, of a readiness
  predicate and of a phone pattern. Their counterparts on the page are defined here from
  the specification's words, to be compared with what the script computes.
\<close>

definition location_entry :: "role \<Rightarrow> page \<Rightarrow> string list" where
  \<comment> \<open>the entry of a role: the five fields \<open>updateLocation\<close> writes for it\<close>
  "location_entry type st =
     (case type of
        Pickup \<Rightarrow> [pickupLat st, pickupLng st, pickupLink st, pickupLinkHidden st, pickupCoordsHidden st]
      | Delivery \<Rightarrow> [deliveryLat st, deliveryLng st, deliveryLink st, deliveryLinkHidden st,
                     deliveryCoordsHidden st])"



definition phone_pattern :: "string \<Rightarrow> bool" where
  \<comment> \<open>\<open>+256\<close>, \<open>0\<close> or \<open>256\<close>, then the digit 7, then exactly eight digits\<close>
  "phone_pattern s =
     (\<exists>p rest. (p = ''+256'' \<or> p = ''0'' \<or> p = ''256'') \<and> s = p @ CHR ''7'' # rest \<and>
                length rest = 8 \<and> list_all is_digit rest)"

definition select_both :: "latlng \<Rightarrow> latlng \<Rightarrow> page \<Rightarrow> page" where
  \<comment> \<open>a pickup point, then a delivery point, through \<open>updateLocation\<close>\<close>
  "select_both p d st = page_of (updateLocation d Delivery (page_of (updateLocation p Pickup st)))"

section \<open>Reachable pages\<close>

text \<open>
  A page is reachable when the handlers of the script produce it from a page as the
  script finds it at load time: no map, no marker, no route layer, and both hidden
  coordinate fields empty or \<open>Not set\<close>. Map events reach a handler only from a map or a
  marker that exists, and the map library hands over positions whose coordinates are
  numbers.
\<close>

definition initial_page :: "page \<Rightarrow> bool" where
  "initial_page st =
     (\<not> pickupMap st \<and> \<not> deliveryMap st \<and> pickupMarker st = None \<and> deliveryMarker st = None \<and>
      routeLayer st = None \<and>
      (pickupCoordsHidden st = [] \<or> pickupCoordsHidden st = ''Not set'') \<and>
      (deliveryCoordsHidden st = [] \<or> deliveryCoordsHidden st = ''Not set''))"

inductive reachable :: "page \<Rightarrow> bool" where
  start: "initial_page st \<Longrightarrow> reachable st"
| maps: "reachable st \<Longrightarrow> reachable (initMaps pv dv st)"
| click: "reachable st \<Longrightarrow> map_of_role r st \<Longrightarrow>
          reachable (page_of (onMapClick \<lparr>lat = Num x, lng = Num y\<rparr> r st))"
| drag: "reachable st \<Longrightarrow> marker_of_role r st \<noteq> None \<Longrightarrow>
          reachable (page_of (onMarkerDragEnd \<lparr>lat = Num x, lng = Num y\<rparr> r st))"
| search: "reachable st \<Longrightarrow> map_of_role r st \<Longrightarrow>
          reachable (page_of (onMarkGeocode \<lparr>lat = Num x, lng = Num y\<rparr> r st))"
| position: "reachable st \<Longrightarrow>
          reachable (page_of (onPosition \<lparr>lat = Num x, lng = Num y\<rparr> r st))"
| clear_location: "reachable st \<Longrightarrow> reachable (clearLocation r st)"
| clear_route: "reachable st \<Longrightarrow> reachable (page_of (clearRoute st))"
| route: "reachable st \<Longrightarrow> reachable (snd (calculateRoute response st))"
| vehicle: "reachable st \<Longrightarrow> reachable (st\<lparr>vehicleType := v\<rparr>)"

definition is_set :: "string \<Rightarrow> bool" where
  \<comment> \<open>\<open>coords && coords !== 'Not set'\<close>\<close>
  "is_set coords = (coords \<noteq> [] \<and> coords \<noteq> ''Not set'')"

definition stored_in_region :: "string \<Rightarrow> bool" where
  \<comment> \<open>the text parses to two numbers, and they are a point of the region\<close>
  "stored_in_region coords =
     contains UGANDA_BOUNDS \<lparr>lat = fst (parse_coords coords), lng = snd (parse_coords coords)\<rparr>"

definition role_inv :: "role \<Rightarrow> page \<Rightarrow> bool" where
  \<comment> \<open>a marker lives on a map, and a stored text belongs to a marker and parses to a point
     of the region\<close>
  "role_inv r st =
     ((marker_of_role r st = None \<or> map_of_role r st) \<and>
      (is_set (coords_of_role r st) = False \<or>
       (marker_of_role r st \<noteq> None \<and> stored_in_region (coords_of_role r st))))"

definition page_inv :: "page \<Rightarrow> bool" where
  "page_inv st =
     (role_inv Pickup st \<and> role_inv Delivery st \<and>
      (routeLayer st = None \<or> (pickupMap st \<and> deliveryMap st)))"

section \<open>Example pages\<close>

definition blank_page :: page where
  "blank_page =
     \<lparr>pickupMap = False, deliveryMap = False, pickupMarker = None, deliveryMarker = None,
      routeLayer = None,
      pickupLat = [], pickupLng = [], pickupLink = [], pickupLinkHidden = [],
      pickupCoordsHidden = [],
      deliveryLat = [], deliveryLng = [], deliveryLink = [], deliveryLinkHidden = [],
      deliveryCoordsHidden = [],
      vehicleType = [], routeSection = DisplayNone,
      routeDistance = Dashes, routeDuration = Dashes, routeCost = Dashes,
      notifications = []\<rparr>"

definition ready_page :: page where
  "ready_page = blank_page\<lparr>pickupMap := True, deliveryMap := True,
     pickupMarker := Some defaultCenter, deliveryMarker := Some defaultCenter\<rparr>"

definition pickup_point :: latlng where
  "pickup_point = \<lparr>lat = Num 0.3476, lng = Num 32.5825\<rparr>"

definition delivery_point :: latlng where
  "delivery_point = \<lparr>lat = Num 0.35, lng = Num 32.6\<rparr>"

definition outside_point :: latlng where
  "outside_point = \<lparr>lat = Num 10, lng = Num 32\<rparr>"

definition located_page :: page where
  "located_page =
     (page_of (onMapClick delivery_point Delivery
        (page_of (onMapClick pickup_point Pickup (initMaps True True blank_page)))))
     \<lparr>vehicleType := ''car''\<rparr>"


definition bare_segment_response :: fetch_outcome where
  "bare_segment_response =
     Response True (JSON \<lparr>renders = True, has_bounds = True, segment0 = Some (NaN, NaN)\<rparr>)"

definition measured_response :: fetch_outcome where
  \<comment> \<open>an answer with a route of 2500 m and 300 s\<close>
  "measured_response =
     Response True (JSON \<lparr>renders = True, has_bounds = True, segment0 = Some (Num 2500, Num 300)\<rparr>)"

definition good_form :: delivery_form where
  "good_form =
     \<lparr>senderName = ''Amina'', senderPhone = ''+256 712-345678'', senderEmail = ''a@example.org'',
      recipientName = ''Okello'', recipientPhone = ''0712345678'',
      packageDescription = ''Documents'', formVehicleType = ''car'',
      pickupLandmark = ''Clock tower'', deliveryLandmark = ''Market'', termsAgreement = True\<rparr>"

section \<open>Digits, rendering and parsing\<close>

lemma digit_char_props:
  assumes "d < 10"
  shows "is_digit (digit_char d)" and "digit_val (digit_char d) = d"
proof -
  from assms have "d = 0 \<or> d = 1 \<or> d = 2 \<or> d = 3 \<or> d = 4 \<or> d = 5 \<or> d = 6 \<or> d = 7 \<or> d = 8 \<or> d = 9"
    by arith
  then show "is_digit (digit_char d)" and "digit_val (digit_char d) = d"
    by (elim disjE; simp add: digit_char_def is_digit_def digit_val_def)+
qed

lemma digits10_nonempty: "digits10 n \<noteq> []"
  by (subst digits10.simps) simp

lemma digits10_all_digits: "list_all is_digit (digits10 n)"
proof (induction n rule: digits10.induct)
  case (1 n)
  show ?case
  proof (cases "n < 10")
    case True
    then show ?thesis by (subst digits10.simps) (simp add: digit_char_props)
  next
    case False
    then have "list_all is_digit (digits10 (n div 10))" using 1 by simp
    moreover have "is_digit (digit_char (n mod 10))" by (simp add: digit_char_props)
    ultimately show ?thesis using False by (subst digits10.simps) simp
  qed
qed

lemma digits_val_foldl:
  "foldl (\<lambda>a c. 10 * a + digit_val c) k s = k * 10 ^ length s + digits_val s"
proof (induction s arbitrary: k)
  case Nil
  show ?case by (simp add: digits_val_def)
next
  case (Cons c s)
  let ?f = "\<lambda>a c. 10 * a + digit_val c"
  have "foldl ?f k (c # s) = foldl ?f (10 * k + digit_val c) s" by simp
  also have "\<dots> = (10 * k + digit_val c) * 10 ^ length s + digits_val s" by (rule Cons)
  finally have l: "foldl ?f k (c # s) = (10 * k + digit_val c) * 10 ^ length s + digits_val s" .
  have "digits_val (c # s) = foldl ?f (digit_val c) s" by (simp add: digits_val_def)
  also have "\<dots> = digit_val c * 10 ^ length s + digits_val s" by (rule Cons)
  finally have r: "digits_val (c # s) = digit_val c * 10 ^ length s + digits_val s" .
  have "(10 * k + digit_val c) * 10 ^ length s + digits_val s
        = k * 10 ^ length (c # s) + (digit_val c * 10 ^ length s + digits_val s)"
    by (simp add: algebra_simps)
  then show ?case by (simp only: l r)
qed

lemma digits_val_append:
  "digits_val (a @ b) = digits_val a * 10 ^ length b + digits_val b"
proof -
  have "digits_val (a @ b) = foldl (\<lambda>a c. 10 * a + digit_val c) (digits_val a) b"
    by (simp add: digits_val_def)
  then show ?thesis by (simp only: digits_val_foldl)
qed

lemma digits_val_single: "digits_val [c] = digit_val c"
  by (simp add: digits_val_def)

lemma digits_val_digits10: "digits_val (digits10 n) = n"
proof (induction n rule: digits10.induct)
  case (1 n)
  show ?case
  proof (cases "n < 10")
    case True
    then show ?thesis
      by (subst digits10.simps) (simp add: digits_val_single digit_char_props)
  next
    case False
    then have "digits_val (digits10 (n div 10)) = n div 10" using 1 by simp
    then show ?thesis using False
      by (subst digits10.simps)
         (simp add: digits_val_append digits_val_single digit_char_props)
  qed
qed

lemma digits_val_zeros: "digits_val (replicate k (CHR ''0'') @ m) = digits_val m"
proof -
  have "digits_val (replicate k (CHR ''0'')) = 0"
    by (induction k) (simp_all add: digits_val_def digit_val_def)
  then show ?thesis by (simp add: digits_val_append)
qed

lemma digit_not_other:
  assumes "is_digit c"
  shows "\<not> is_js_space c" and "c \<noteq> CHR ''-''" and "c \<noteq> CHR ''+''" and "c \<noteq> CHR ''.''"
    and "c \<noteq> CHR '',''"
  using assms by (auto simp: is_digit_def is_js_space_def)

lemma takeWhile_digits:
  assumes "list_all is_digit a" and "\<not> is_digit c"
  shows "takeWhile is_digit (a @ c # r) = a" and "dropWhile is_digit (a @ c # r) = c # r"
  using assms by (induction a) simp_all

lemma takeWhile_all_digits:
  assumes "list_all is_digit b"
  shows "takeWhile is_digit b = b" and "dropWhile is_digit b = []"
  using assms by (induction b) simp_all

lemma parseFloat_digits:
  assumes a: "list_all is_digit a" "a \<noteq> []" and b: "list_all is_digit b"
  shows "parseFloat (a @ CHR ''.'' # b) = Num (real (digits_val a) + real (digits_val b) / 10 ^ length b)"
proof -
  from a obtain c a' where ca: "a = c # a'" and c: "is_digit c" by (cases a) auto
  have nd: "\<not> is_digit (CHR ''.'')" by (simp add: is_digit_def)
  have sp: "dropWhile is_js_space (a @ CHR ''.'' # b) = a @ CHR ''.'' # b"
    using digit_not_other(1) [OF c] by (simp add: ca)
  have rs: "read_sign (a @ CHR ''.'' # b) = (False, a @ CHR ''.'' # b)"
    using digit_not_other(2,3) [OF c] by (simp add: ca read_sign_def)
  have ex: "read_exponent [] = 0" by (simp add: read_exponent_def)
  show ?thesis
    unfolding parseFloat_def sp rs
    by (simp add: takeWhile_digits [OF a(1) nd] takeWhile_all_digits [OF b] ex a(2))
qed

lemma parseFloat_neg_digits:
  assumes a: "list_all is_digit a" "a \<noteq> []" and b: "list_all is_digit b"
  shows "parseFloat (CHR ''-'' # a @ CHR ''.'' # b)
         = Num (- (real (digits_val a) + real (digits_val b) / 10 ^ length b))"
proof -
  have nd: "\<not> is_digit (CHR ''.'')" by (simp add: is_digit_def)
  have sp: "dropWhile is_js_space (CHR ''-'' # a @ CHR ''.'' # b) = CHR ''-'' # a @ CHR ''.'' # b"
    by (simp add: is_js_space_def)
  have rs: "read_sign (CHR ''-'' # a @ CHR ''.'' # b) = (True, a @ CHR ''.'' # b)"
    by (simp add: read_sign_def)
  have ex: "read_exponent [] = 0" by (simp add: read_exponent_def)
  show ?thesis
    unfolding parseFloat_def sp rs
    by (simp add: takeWhile_digits [OF a(1) nd] takeWhile_all_digits [OF b] ex a(2))
qed

lemma toFixed6_shape:
  obtains a b where
    "toFixed6 (Num x) = (if x < 0 then ''-'' else []) @ a @ CHR ''.'' # b"
    "list_all is_digit a" "a \<noteq> []" "list_all is_digit b" "length b = 6"
    "digits_val a * 10 ^ 6 + digits_val b = nat \<lfloor>\<bar>x\<bar> * 10 ^ 6 + 1 / 2\<rfloor>"
proof -
  define n where "n = nat \<lfloor>\<bar>x\<bar> * 10 ^ 6 + 1 / 2\<rfloor>"
  define m where "m = replicate (7 - length (digits10 n)) (CHR ''0'') @ digits10 n"
  define a where "a = take (length m - 6) m"
  define b where "b = drop (length m - 6) m"
  have z: "is_digit (CHR ''0'')" by (simp add: is_digit_def)
  have len: "7 \<le> length m" by (simp add: m_def)
  have dm: "list_all is_digit m"
    using digits10_all_digits [of n] z by (auto simp: m_def list_all_iff)
  have ab: "a @ b = m" by (simp add: a_def b_def)
  have da: "list_all is_digit a" and db: "list_all is_digit b"
    using dm unfolding ab [symmetric] by simp_all
  have lb: "length b = 6" using len by (simp add: b_def)
  have na: "a \<noteq> []" using len by (auto simp: a_def)
  have "digits_val m = n" by (simp add: m_def digits_val_zeros digits_val_digits10)
  then have v: "digits_val a * 10 ^ 6 + digits_val b = n"
    using digits_val_append [of a b] by (simp only: ab lb)
  have "toFixed6 (Num x) = (if x < 0 then ''-'' else []) @ a @ CHR ''.'' # b"
    by (simp add: toFixed6_def Let_def n_def m_def a_def b_def)
  then show thesis using da na db lb v unfolding n_def by (rule that)
qed

lemma parseFloat_toFixed6: "parseFloat (toFixed6 (Num x)) = Num (round6 x)"
proof -
  obtain a b where s: "toFixed6 (Num x) = (if x < 0 then ''-'' else []) @ a @ CHR ''.'' # b"
    and a: "list_all is_digit a" "a \<noteq> []" and b: "list_all is_digit b" "length b = 6"
    and v: "digits_val a * 10 ^ 6 + digits_val b = nat \<lfloor>\<bar>x\<bar> * 10 ^ 6 + 1 / 2\<rfloor>"
    by (rule toFixed6_shape)
  have "0 \<le> \<lfloor>\<bar>x\<bar> * 10 ^ 6 + 1 / 2\<rfloor>" by simp
  then have "real (nat \<lfloor>\<bar>x\<bar> * 10 ^ 6 + 1 / 2\<rfloor>) = of_int \<lfloor>\<bar>x\<bar> * 10 ^ 6 + 1 / 2\<rfloor>"
    by simp
  then have "real (digits_val a * 10 ^ 6 + digits_val b) = of_int \<lfloor>\<bar>x\<bar> * 10 ^ 6 + 1 / 2\<rfloor>"
    by (simp only: v)
  then have m: "real (digits_val a) + real (digits_val b) / 10 ^ length b
                = of_int \<lfloor>\<bar>x\<bar> * 10 ^ 6 + 1 / 2\<rfloor> / 10 ^ 6"
    by (simp add: b(2) field_simps)
  show ?thesis
  proof (cases "x < 0")
    case True
    then have "toFixed6 (Num x) = CHR ''-'' # a @ CHR ''.'' # b" by (simp add: s)
    then show ?thesis
      using True by (simp only: parseFloat_neg_digits [OF a b(1)] m) (simp add: round6_def)
  next
    case False
    then have "toFixed6 (Num x) = a @ CHR ''.'' # b" by (simp add: s)
    then show ?thesis
      using False by (simp only: parseFloat_digits [OF a b(1)] m) (simp add: round6_def)
  qed
qed

lemma toFixed6_chars:
  "toFixed6 (Num x) \<noteq> []"
  "\<not> is_js_space (hd (toFixed6 (Num x)))"
  "\<not> is_js_space (last (toFixed6 (Num x)))"
  "CHR '','' \<notin> set (toFixed6 (Num x))"
  "hd (toFixed6 (Num x)) \<noteq> CHR ''N''"
proof -
  obtain a b where s: "toFixed6 (Num x) = (if x < 0 then ''-'' else []) @ a @ CHR ''.'' # b"
    and a: "list_all is_digit a" "a \<noteq> []" and b: "list_all is_digit b" "length b = 6"
    by (rule toFixed6_shape)
  from a obtain c a' where ca: "a = c # a'" and c: "is_digit c" by (cases a) auto
  from b have nb: "b \<noteq> []" by auto
  then have lb: "is_digit (last b)" using b(1) by (simp add: list_all_iff)
  show "toFixed6 (Num x) \<noteq> []" by (simp add: s)
  show "\<not> is_js_space (hd (toFixed6 (Num x)))"
    using digit_not_other(1) [OF c] by (simp add: s ca is_js_space_def)
  show "\<not> is_js_space (last (toFixed6 (Num x)))"
    using digit_not_other(1) [OF lb] nb by (simp add: s)
  show "CHR '','' \<notin> set (toFixed6 (Num x))"
    using a(1) b(1) digit_not_other(5) by (auto simp: s list_all_iff)
  show "hd (toFixed6 (Num x)) \<noteq> CHR ''N''"
    using c by (auto simp: s ca is_digit_def)
qed

lemma split_comma_no_comma: "CHR '','' \<notin> set b \<Longrightarrow> split_comma b = [b]"
  by (induction b) auto

lemma split_comma_first:
  "CHR '','' \<notin> set a \<Longrightarrow> split_comma (a @ CHR '','' # r) = a # split_comma r"
  by (induction a) auto

lemma trim_id:
  assumes "t \<noteq> []" and "\<not> is_js_space (hd t)" and "\<not> is_js_space (last t)"
  shows "trim t = t"
proof -
  from assms(1,2) have 1: "dropWhile is_js_space t = t" by (cases t) simp_all
  from assms(1,3) have "rev t \<noteq> []" and "\<not> is_js_space (hd (rev t))"
    by (simp_all add: hd_rev)
  then have 2: "dropWhile is_js_space (rev t) = rev t"
    by (cases "rev t") simp_all
  show ?thesis by (simp add: trim_def 1 2)
qed

lemma trim_leading_space: "trim (CHR '' '' # t) = trim t"
  by (simp add: trim_def is_js_space_def)

lemma parse_coords_stored:
  "parse_coords (coords_text (toFixed6 (Num x)) (toFixed6 (Num y))) = (Num (round6 x), Num (round6 y))"
proof -
  let ?A = "toFixed6 (Num x)" and ?B = "toFixed6 (Num y)"
  have "split_comma (coords_text ?A ?B) = ?A # split_comma (CHR '' '' # ?B)"
    using split_comma_first [OF toFixed6_chars(4) [of x]] by (simp add: coords_text_def)
  also have "split_comma (CHR '' '' # ?B) = [CHR '' '' # ?B]"
    by (rule split_comma_no_comma) (simp add: toFixed6_chars(4))
  finally have sp: "split_comma (coords_text ?A ?B) = [?A, CHR '' '' # ?B]" .
  have ta: "trim ?A = ?A" by (rule trim_id) (rule toFixed6_chars)+
  have "trim ?B = ?B" by (rule trim_id) (rule toFixed6_chars)+
  then have tb: "trim (CHR '' '' # ?B) = ?B" by (simp only: trim_leading_space)
  show ?thesis
    unfolding parse_coords_def sp by (simp add: ta tb parseFloat_toFixed6 elem_def)
qed

section \<open>Rounding inside the region\<close>

text \<open>
  The four bounds of the region are multiples of \<open>10\<^sup>-\<^sup>6\<close>, so rounding a point of the
  region to six decimals leaves it in the region.
\<close>

lemma round6_nonneg_bounds:
  fixes k :: int
  assumes "0 \<le> x"
  shows "real_of_int k \<le> x * 10 ^ 6 \<Longrightarrow> real_of_int k / 10 ^ 6 \<le> round6 x"
    and "x * 10 ^ 6 \<le> real_of_int k \<Longrightarrow> round6 x \<le> real_of_int k / 10 ^ 6"
proof -
  have r: "round6 x = real_of_int \<lfloor>x * 10 ^ 6 + 1 / 2\<rfloor> / 10 ^ 6"
    using assms by (simp add: round6_def)
  show "real_of_int k / 10 ^ 6 \<le> round6 x" if "real_of_int k \<le> x * 10 ^ 6"
  proof -
    have "k \<le> \<lfloor>x * 10 ^ 6 + 1 / 2\<rfloor>" using that by (simp add: le_floor_iff)
    then have "real_of_int k \<le> real_of_int \<lfloor>x * 10 ^ 6 + 1 / 2\<rfloor>" by simp
    then show ?thesis unfolding r by (simp add: divide_right_mono)
  qed
  show "round6 x \<le> real_of_int k / 10 ^ 6" if "x * 10 ^ 6 \<le> real_of_int k"
  proof -
    have "\<lfloor>x * 10 ^ 6 + 1 / 2\<rfloor> \<le> k" using that by (simp add: floor_le_iff)
    then have "real_of_int \<lfloor>x * 10 ^ 6 + 1 / 2\<rfloor> \<le> real_of_int k" by simp
    then show ?thesis unfolding r by (simp add: divide_right_mono)
  qed
qed

lemma round6_neg_bounds:
  fixes k :: int
  assumes "x < 0"
  shows "round6 x \<le> 0"
    and "- x * 10 ^ 6 \<le> real_of_int k \<Longrightarrow> - (real_of_int k / 10 ^ 6) \<le> round6 x"
proof -
  have r: "round6 x = - (real_of_int \<lfloor>- x * 10 ^ 6 + 1 / 2\<rfloor> / 10 ^ 6)"
    using assms by (simp add: round6_def)
  have "0 \<le> \<lfloor>- x * 10 ^ 6 + 1 / 2\<rfloor>" using assms by (simp add: le_floor_iff)
  then show "round6 x \<le> 0" unfolding r by simp
  show "- (real_of_int k / 10 ^ 6) \<le> round6 x" if "- x * 10 ^ 6 \<le> real_of_int k"
  proof -
    have "\<lfloor>- x * 10 ^ 6 + 1 / 2\<rfloor> \<le> k" using that by (simp add: floor_le_iff)
    then have "real_of_int \<lfloor>- x * 10 ^ 6 + 1 / 2\<rfloor> \<le> real_of_int k" by simp
    then show ?thesis unfolding r by (simp add: divide_right_mono)
  qed
qed

lemma round6_latitude:
  assumes "- 1.5 \<le> x" and "x \<le> 4.9"
  shows "- 1.5 \<le> round6 x" and "round6 x \<le> 4.9"
proof -
  show "- 1.5 \<le> round6 x"
  proof (cases "x < 0")
    case True
    from round6_neg_bounds(2) [OF True, of 1500000] assms(1) show ?thesis by simp
  next
    case False
    then have "0 \<le> x" by simp
    from round6_nonneg_bounds(1) [OF this, of 0] this show ?thesis by simp
  qed
  show "round6 x \<le> 4.9"
  proof (cases "x < 0")
    case True
    from round6_neg_bounds(1) [OF True] show ?thesis by simp
  next
    case False
    then have "0 \<le> x" by simp
    from round6_nonneg_bounds(2) [OF this, of 4900000] assms(2) show ?thesis by simp
  qed
qed

lemma round6_longitude:
  assumes "29.5 \<le> y" and "y \<le> 35.1"
  shows "29.5 \<le> round6 y" and "round6 y \<le> 35.1"
proof -
  have p: "0 \<le> y" using assms(1) by simp
  from round6_nonneg_bounds(1) [OF p, of 29500000] assms(1) show "29.5 \<le> round6 y" by simp
  from round6_nonneg_bounds(2) [OF p, of 35100000] assms(2) show "round6 y \<le> 35.1" by simp
qed

lemma contains_uganda:
  "contains UGANDA_BOUNDS \<lparr>lat = Num x, lng = Num y\<rparr>
     = (- 1.5 \<le> x \<and> x \<le> 4.9 \<and> 29.5 \<le> y \<and> y \<le> 35.1)"
  by (simp add: contains_def js_le_def UGANDA_BOUNDS_def)

lemma contains_round6:
  assumes "contains UGANDA_BOUNDS \<lparr>lat = Num x, lng = Num y\<rparr>"
  shows "contains UGANDA_BOUNDS \<lparr>lat = Num (round6 x), lng = Num (round6 y)\<rparr>"
  using assms round6_latitude [of x] round6_longitude [of y]
  unfolding contains_uganda by simp

section \<open>The haversine formula\<close>

text \<open>
  The lemmas of this section are about \<open>calculateDistance_real\<close>, the distance in exact
  arithmetic: there it is the textbook formula, it is 0 from a point to itself, and it is
  symmetric. Lemma \<open>haversine_a_region\<close> bounds the haversine term of two points of the
  region.
\<close>

lemma hav_bounds: "0 \<le> hav t" "hav t \<le> 1"
  by (simp_all add: hav_def abs_square_le_1)

lemma hav_cos: "hav t = (1 - cos t) / 2"
  using cos_double_sin [of "t / 2"] by (simp add: hav_def)

lemma haversine_mix:
  "hav (q - p) + cos p * cos q * t = (1 - t) * hav (q - p) + t * (cos ((p + q) / 2))\<^sup>2"
proof -
  have e: "2 * ((p + q) / 2) = p + q" by simp
  have "(cos ((p + q) / 2))\<^sup>2 = (1 + cos (p + q)) / 2"
    using cos_double_cos [of "(p + q) / 2"] unfolding e by simp
  then have "(cos ((p + q) / 2))\<^sup>2 - hav (q - p) = cos p * cos q"
    by (simp add: hav_cos cos_add cos_diff field_simps)
  then have "cos p * cos q * t = t * ((cos ((p + q) / 2))\<^sup>2 - hav (q - p))"
    by simp
  then show ?thesis by (simp add: algebra_simps)
qed

lemma convex_unit:
  fixes t u v :: real
  assumes "0 \<le> t" "t \<le> 1" "0 \<le> u" "u \<le> 1" "0 \<le> v" "v \<le> 1"
  shows "0 \<le> (1 - t) * u + t * v" and "(1 - t) * u + t * v \<le> 1"
proof -
  show "0 \<le> (1 - t) * u + t * v" using assms by simp
  have "(1 - t) * u \<le> (1 - t) * 1" using assms by (intro mult_left_mono) simp_all
  moreover have "t * v \<le> t * 1" using assms by (intro mult_left_mono) simp_all
  ultimately show "(1 - t) * u + t * v \<le> 1" by simp
qed

lemma haversine_a_alt:
  "haversine_a lat1 lon1 lat2 lon2 =
     hav (rad lat2 - rad lat1) + cos (rad lat1) * cos (rad lat2) * hav (rad lon2 - rad lon1)"
  by (simp add: haversine_a_def hav_def rad_def power2_eq_square algebra_simps diff_divide_distrib)

lemma haversine_a_bounds:
  "0 \<le> haversine_a lat1 lon1 lat2 lon2" "haversine_a lat1 lon1 lat2 lon2 \<le> 1"
proof -
  let ?t = "hav (rad lon2 - rad lon1)"
  have c: "0 \<le> (cos ((rad lat1 + rad lat2) / 2))\<^sup>2" "(cos ((rad lat1 + rad lat2) / 2))\<^sup>2 \<le> 1"
    by (simp_all add: abs_square_le_1)
  show "0 \<le> haversine_a lat1 lon1 lat2 lon2"
    unfolding haversine_a_alt haversine_mix
    by (rule convex_unit(1) [OF hav_bounds hav_bounds c])
  show "haversine_a lat1 lon1 lat2 lon2 \<le> 1"
    unfolding haversine_a_alt haversine_mix
    by (rule convex_unit(2) [OF hav_bounds hav_bounds c])
qed

lemma sin_half_square:
  fixes d :: real
  assumes "\<bar>d\<bar> \<le> 32 / 5"
  shows "sin (d * pi / 180 / 2) * sin (d * pi / 180 / 2) \<le> 1 / 190"
proof -
  let ?t = "d * pi / 180 / 2"
  have "\<bar>?t\<bar> = \<bar>d\<bar> * pi / 360" by (simp add: abs_mult)
  also have "\<dots> \<le> (32 / 5) * 4 / 360"
    using assms pi_less_4 pi_gt_zero
    by (intro divide_right_mono mult_mono) simp_all
  finally have t: "\<bar>?t\<bar> \<le> 32 / 450" by simp
  have "\<bar>sin ?t\<bar> \<le> \<bar>?t\<bar>" by (rule abs_sin_x_le_abs_x)
  with t have s: "\<bar>sin ?t\<bar> \<le> 32 / 450" by linarith
  have "sin ?t * sin ?t = \<bar>sin ?t\<bar> * \<bar>sin ?t\<bar>" by simp
  also have "\<dots> \<le> (32 / 450) * (32 / 450)"
    using s by (intro mult_mono) simp_all
  also have "\<dots> \<le> 1 / 190" by simp
  finally show ?thesis .
qed

lemma haversine_a_region:
  assumes "contains UGANDA_BOUNDS \<lparr>lat = Num lat1, lng = Num lon1\<rparr>"
    and "contains UGANDA_BOUNDS \<lparr>lat = Num lat2, lng = Num lon2\<rparr>"
  shows "haversine_a lat1 lon1 lat2 lon2 \<le> 1 / 95"
proof -
  from assms have d: "\<bar>lat2 - lat1\<bar> \<le> 32 / 5" "\<bar>lon2 - lon1\<bar> \<le> 32 / 5"
    unfolding contains_uganda by linarith+
  let ?u = "sin ((lat2 - lat1) * pi / 180 / 2) * sin ((lat2 - lat1) * pi / 180 / 2)"
  let ?v = "sin ((lon2 - lon1) * pi / 180 / 2) * sin ((lon2 - lon1) * pi / 180 / 2)"
  let ?c = "cos (lat1 * pi / 180) * cos (lat2 * pi / 180)"
  have u: "?u \<le> 1 / 190" using d(1) by (rule sin_half_square)
  have v: "?v \<le> 1 / 190" using d(2) by (rule sin_half_square)
  have v0: "0 \<le> ?v" by simp
  have "\<bar>?c\<bar> \<le> 1 * 1" unfolding abs_mult by (intro mult_mono) simp_all
  then have c: "?c \<le> 1" by simp
  have "?c * ?v \<le> 1 * ?v" using c v0 by (rule mult_right_mono)
  then have "?c * ?v \<le> 1 / 190" using v by simp
  with u have "?u + ?c * ?v \<le> 1 / 190 + 1 / 190" by (rule add_mono)
  then show ?thesis by (simp add: haversine_a_def Let_def mult.assoc)
qed

lemma atan2_arcsin:
  assumes "0 \<le> a" "a \<le> 1"
  shows "Math_atan2 (sqrt a) (sqrt (1 - a)) = arcsin (sqrt a)"
proof (cases "a = 1")
  case True
  then show ?thesis by (simp add: Math_atan2_def)
next
  case False
  with assms have lt: "a < 1" by simp
  let ?s = "sqrt a"
  have s: "0 \<le> ?s" "?s < 1" using assms lt by simp_all
  have pos: "0 < sqrt (1 - a)" using lt by simp
  have "cos (arcsin ?s) = sqrt (1 - ?s\<^sup>2)"
    by (rule cos_arcsin) (use s in linarith)+
  moreover have "?s\<^sup>2 = a" using assms by simp
  ultimately have cs: "cos (arcsin ?s) = sqrt (1 - a)" by simp
  have sn: "sin (arcsin ?s) = ?s" by (rule sin_arcsin) (use s in linarith)+
  have "- 1 < ?s" using s by linarith
  then have "- (pi / 2) < arcsin ?s \<and> arcsin ?s < pi / 2"
    using s(2) by (rule arcsin_lt_bounded)
  then have rng: "- (pi / 2) < arcsin ?s" "arcsin ?s < pi / 2" by simp_all
  have "tan (arcsin ?s) = ?s / sqrt (1 - a)" by (simp add: tan_def cs sn)
  then have "arctan (?s / sqrt (1 - a)) = arcsin ?s"
    using rng by (intro arctan_unique) simp_all
  then show ?thesis using pos by (simp add: Math_atan2_def)
qed

lemma calculateDistance_real_haversine:
  "calculateDistance_real lat1 lon1 lat2 lon2 = haversine_spec lat1 lon1 lat2 lon2"
  using atan2_arcsin [OF haversine_a_bounds [of lat1 lon1 lat2 lon2]]
  by (simp add: calculateDistance_real_def haversine_spec_def haversine_a_alt [symmetric])

lemma calculateDistance_real_self: "calculateDistance_real la lo la lo = 0"
  by (simp add: calculateDistance_real_def haversine_a_def Math_atan2_def)

lemma sin_half_swap: "sin ((x - y) * pi / 180 / 2) = - sin ((y - x) * pi / 180 / 2)"
proof -
  have "(x - y) * pi / 180 / 2 = - ((y - x) * pi / 180 / 2)" by (simp add: field_simps)
  then show ?thesis by (simp only: sin_minus)
qed

lemma haversine_a_sym: "haversine_a a b c d = haversine_a c d a b"
  unfolding haversine_a_def Let_def
  by (simp only: sin_half_swap [of c a] sin_half_swap [of d b]) simp

lemma calculateDistance_real_sym: "calculateDistance_real a b c d = calculateDistance_real c d a b"
  by (simp add: calculateDistance_real_def haversine_a_sym [of a b c d])

section \<open>Fields that the handlers keep\<close>

lemma latlng_eta: "\<lparr>lat = lat p, lng = lng p\<rparr> = (p :: latlng)"
  by (cases p) simp

lemma check_fields [simp]:
  "pickupMap (checkRouteAvailability st) = pickupMap st"
  "deliveryMap (checkRouteAvailability st) = deliveryMap st"
  "pickupMarker (checkRouteAvailability st) = pickupMarker st"
  "deliveryMarker (checkRouteAvailability st) = deliveryMarker st"
  "routeLayer (checkRouteAvailability st) = routeLayer st"
  "pickupLat (checkRouteAvailability st) = pickupLat st"
  "pickupLng (checkRouteAvailability st) = pickupLng st"
  "pickupLink (checkRouteAvailability st) = pickupLink st"
  "pickupLinkHidden (checkRouteAvailability st) = pickupLinkHidden st"
  "pickupCoordsHidden (checkRouteAvailability st) = pickupCoordsHidden st"
  "deliveryLat (checkRouteAvailability st) = deliveryLat st"
  "deliveryLng (checkRouteAvailability st) = deliveryLng st"
  "deliveryLink (checkRouteAvailability st) = deliveryLink st"
  "deliveryLinkHidden (checkRouteAvailability st) = deliveryLinkHidden st"
  "deliveryCoordsHidden (checkRouteAvailability st) = deliveryCoordsHidden st"
  "vehicleType (checkRouteAvailability st) = vehicleType st"
  "routeDistance (checkRouteAvailability st) = routeDistance st"
  "routeDuration (checkRouteAvailability st) = routeDuration st"
  "routeCost (checkRouteAvailability st) = routeCost st"
  "notifications (checkRouteAvailability st) = notifications st"
  by (simp_all add: checkRouteAvailability_def Let_def)

lemma notify_fields [simp]:
  "pickupMap (showNotification m st) = pickupMap st"
  "deliveryMap (showNotification m st) = deliveryMap st"
  "pickupMarker (showNotification m st) = pickupMarker st"
  "deliveryMarker (showNotification m st) = deliveryMarker st"
  "routeLayer (showNotification m st) = routeLayer st"
  "pickupCoordsHidden (showNotification m st) = pickupCoordsHidden st"
  "deliveryCoordsHidden (showNotification m st) = deliveryCoordsHidden st"
  "vehicleType (showNotification m st) = vehicleType st"
  "routeSection (showNotification m st) = routeSection st"
  "routeDistance (showNotification m st) = routeDistance st"
  "routeDuration (showNotification m st) = routeDuration st"
  "routeCost (showNotification m st) = routeCost st"
  "notifications (showNotification m st) = notifications st @ [m]"
  by (simp_all add: showNotification_def)

lemma set_marker_fields [simp]:
  "routeLayer (set_marker r p st) = routeLayer st"
  "routeDistance (set_marker r p st) = routeDistance st"
  "routeDuration (set_marker r p st) = routeDuration st"
  "routeCost (set_marker r p st) = routeCost st"
  by (cases r; simp add: set_marker_def)+

lemma store_location_fields [simp]:
  "pickupMap (store_location p r st) = pickupMap st"
  "deliveryMap (store_location p r st) = deliveryMap st"
  "vehicleType (store_location p r st) = vehicleType st"
  "routeLayer (store_location p r st) = routeLayer st"
  by (cases r; simp add: store_location_def Let_def)+

lemma showNotification_store:
  "location_entry t (showNotification m st) = location_entry t st"
  by (cases t) (simp_all add: location_entry_def showNotification_def)

lemma set_marker_store:
  "location_entry t (set_marker r p st) = location_entry t st"
  by (cases t; cases r) (simp_all add: location_entry_def set_marker_def)

lemma location_entry_check [simp]:
  "location_entry r (checkRouteAvailability st) = location_entry r st"
  by (cases r) (simp_all add: location_entry_def)

lemma marker_of_role_check [simp]:
  "marker_of_role r (checkRouteAvailability st) = marker_of_role r st"
  by (cases r) (simp_all add: marker_of_role_def)

lemma store_location_entry:
  "location_entry r (store_location p r st) =
     [toFixed6 (lat p), toFixed6 (lng p),
      mapLink (toFixed6 (lat p)) (toFixed6 (lng p)),
      mapLink (toFixed6 (lat p)) (toFixed6 (lng p)),
      coords_text (toFixed6 (lat p)) (toFixed6 (lng p))]"
  by (cases r) (simp_all add: store_location_def Let_def location_entry_def)

lemma store_location_other:
  "r' \<noteq> r \<Longrightarrow> location_entry r' (store_location p r st) = location_entry r' st"
  by (cases r; cases r') (simp_all add: store_location_def Let_def location_entry_def)

lemma store_location_marker:
  "marker_of_role r' st \<noteq> None \<Longrightarrow> marker_of_role r' (store_location p r st) \<noteq> None"
  by (cases r; cases r') (simp_all add: store_location_def Let_def marker_of_role_def)

lemma updateLocation_page:
  assumes "marker_of_role r st \<noteq> None"
  shows "page_of (updateLocation p r st) =
           (if map_of_role r st then checkRouteAvailability (store_location p r st)
            else store_location p r st)"
  using assms by (auto simp: updateLocation_def Let_def)

lemma updateLocation_stores:
  assumes "marker_of_role r st \<noteq> None"
  shows "location_entry r (page_of (updateLocation p r st)) =
           [toFixed6 (lat p), toFixed6 (lng p),
            mapLink (toFixed6 (lat p)) (toFixed6 (lng p)),
            mapLink (toFixed6 (lat p)) (toFixed6 (lng p)),
            coords_text (toFixed6 (lat p)) (toFixed6 (lng p))]"
    and "pickupMap (page_of (updateLocation p r st)) = pickupMap st"
    and "deliveryMap (page_of (updateLocation p r st)) = deliveryMap st"
    and "marker_of_role r' st \<noteq> None \<Longrightarrow> marker_of_role r' (page_of (updateLocation p r st)) \<noteq> None"
    and "vehicleType (page_of (updateLocation p r st)) = vehicleType st"
    and "r' \<noteq> r \<Longrightarrow> location_entry r' (page_of (updateLocation p r st)) = location_entry r' st"
proof -
  show "location_entry r (page_of (updateLocation p r st)) =
           [toFixed6 (lat p), toFixed6 (lng p),
            mapLink (toFixed6 (lat p)) (toFixed6 (lng p)),
            mapLink (toFixed6 (lat p)) (toFixed6 (lng p)),
            coords_text (toFixed6 (lat p)) (toFixed6 (lng p))]"
    by (simp add: updateLocation_page [OF assms] store_location_entry)
  show "pickupMap (page_of (updateLocation p r st)) = pickupMap st"
    and "deliveryMap (page_of (updateLocation p r st)) = deliveryMap st"
    and "vehicleType (page_of (updateLocation p r st)) = vehicleType st"
    by (simp_all add: updateLocation_page [OF assms])
  show "marker_of_role r' (page_of (updateLocation p r st)) \<noteq> None"
    if "marker_of_role r' st \<noteq> None"
    using store_location_marker [OF that, of p r]
    by (cases "map_of_role r st") (auto simp: updateLocation_page [OF assms])
  show "location_entry r' (page_of (updateLocation p r st)) = location_entry r' st" if "r' \<noteq> r"
    using that by (simp add: updateLocation_page [OF assms] store_location_other)
qed

lemma out_of_bounds_handlers:
  assumes "\<not> contains UGANDA_BOUNDS p"
  shows "onMapClick p r st = Completed (showNotification
           ''Location outside Uganda - pick a point inside Uganda.'' st)"
    and "onMarkGeocode p r st = Completed (showNotification
           ''Search result is outside Uganda - please pick a location inside Uganda.'' st)"
    and "onPosition p r st = Completed (showNotification
           ''Your current location is outside Uganda. Please set a location inside Uganda.'' st)"
    and "location_entry t (page_of (onMarkerDragEnd p r st)) = location_entry t st"
    and "notifications (page_of (onMarkerDragEnd p r st))
         = notifications st @ [''Marker outside Uganda - resetting to last valid position.'']"
    and "location_entry t (page_of (onMapClick p r st)) = location_entry t st"
    and "location_entry t (page_of (onMarkGeocode p r st)) = location_entry t st"
    and "location_entry t (page_of (onPosition p r st)) = location_entry t st"
proof -
  show "onMapClick p r st = Completed (showNotification
           ''Location outside Uganda - pick a point inside Uganda.'' st)"
    using assms by (simp add: onMapClick_def)
  then show "location_entry t (page_of (onMapClick p r st)) = location_entry t st"
    by (simp add: showNotification_store)
  show "onMarkGeocode p r st = Completed (showNotification
           ''Search result is outside Uganda - please pick a location inside Uganda.'' st)"
    using assms by (simp add: onMarkGeocode_def)
  then show "location_entry t (page_of (onMarkGeocode p r st)) = location_entry t st"
    by (simp add: showNotification_store)
  show "onPosition p r st = Completed (showNotification
           ''Your current location is outside Uganda. Please set a location inside Uganda.'' st)"
    using assms by (simp add: onPosition_def)
  then show "location_entry t (page_of (onPosition p r st)) = location_entry t st"
    by (simp add: showNotification_store)
  show "location_entry t (page_of (onMarkerDragEnd p r st)) = location_entry t st"
    using assms
    by (simp add: onMarkerDragEnd_def Let_def showNotification_store set_marker_store
        split: prod.split jsnum.split)
  show "notifications (page_of (onMarkerDragEnd p r st))
         = notifications st @ [''Marker outside Uganda - resetting to last valid position.'']"
    using assms
    by (cases r) (simp_all add: onMarkerDragEnd_def Let_def showNotification_def set_marker_def
        split: prod.split jsnum.split)
qed

section \<open>The two branches of route resolution\<close>

lemma Math_round_idem: "Math_round (Math_round v) = Math_round v"
  by (cases v) (simp_all add: Math_round_def)

lemma fallback_cost_round: "Math_round (fallback_cost v d) = fallback_cost v d"
  by (simp add: fallback_cost_def Math_round_idem)


lemma route_primary_Inl:
  assumes "route_primary v f st = Inl st1"
  shows "pickupMap st1 = pickupMap st \<and> deliveryMap st1 = deliveryMap st \<and>
         pickupMarker st1 = pickupMarker st \<and> deliveryMarker st1 = deliveryMarker st \<and>
         pickupCoordsHidden st1 = pickupCoordsHidden st \<and>
         deliveryCoordsHidden st1 = deliveryCoordsHidden st \<and>
         (routeLayer st1 = routeLayer st \<or> (pickupMap st \<and> deliveryMap st))"
proof (cases f)
  case Rejected
  with assms show ?thesis by (simp add: route_primary_def)
next
  case (Response ok b)
  show ?thesis
  proof (cases b)
    case NotJSON
    with assms Response show ?thesis by (simp add: route_primary_def split: if_splits)
  next
    case (JSON data)
    show ?thesis
    proof (cases "ok \<and> routeLayer st = None \<and> renders data \<and> pickupMap st \<and> deliveryMap st")
      case False
      with assms Response JSON have "st1 = st"
        by (simp add: route_primary_def split: if_splits)
      then show ?thesis by simp
    next
      case True
      with assms Response JSON have "st1 = st\<lparr>routeLayer := Some (GeoJSON data)\<rparr>"
        by (simp add: route_primary_def Let_def split: if_splits option.splits prod.splits)
      with True show ?thesis by simp
    qed
  qed
qed

lemma route_primary_Inr:
  assumes "route_primary v f st = Inr (r, st1)"
  shows "source r = Primary \<and> pickupMap st \<and> deliveryMap st \<and> routeLayer st = None \<and>
         routeLayer st1 \<noteq> None \<and>
         pickupMap st1 = pickupMap st \<and> deliveryMap st1 = deliveryMap st \<and>
         pickupMarker st1 = pickupMarker st \<and> deliveryMarker st1 = deliveryMarker st \<and>
         pickupCoordsHidden st1 = pickupCoordsHidden st \<and>
         deliveryCoordsHidden st1 = deliveryCoordsHidden st"
proof (cases f)
  case Rejected
  with assms show ?thesis by (simp add: route_primary_def)
next
  case (Response ok b)
  show ?thesis
  proof (cases b)
    case NotJSON
    with assms Response show ?thesis by (simp add: route_primary_def split: if_splits)
  next
    case (JSON data)
    show ?thesis
    proof (cases "ok \<and> routeLayer st = None \<and> renders data \<and> pickupMap st \<and> deliveryMap st \<and>
                  has_bounds data")
      case False
      with assms Response JSON show ?thesis
        by (simp add: route_primary_def Let_def split: if_splits)
    next
      case True
      show ?thesis
      proof (cases "segment0 data")
        case None
        with assms Response JSON True show ?thesis
          by (simp add: route_primary_def Let_def)
      next
        case (Some seg)
        obtain distance duration where seg: "seg = (distance, duration)" by (cases seg)
        from assms Response JSON True Some seg show ?thesis
          by (auto simp: route_primary_def Let_def)
      qed
    qed
  qed
qed

lemma route_primary_Inr_response:
  assumes "route_primary v f st = Inr rs"
  shows "\<exists>data seg. f = Response True (JSON data) \<and> renders data \<and> has_bounds data \<and>
                    segment0 data = Some seg"
proof (cases f)
  case Rejected
  with assms show ?thesis by (simp add: route_primary_def)
next
  case (Response ok b)
  show ?thesis
  proof (cases b)
    case NotJSON
    with assms Response show ?thesis by (simp add: route_primary_def split: if_splits)
  next
    case (JSON data)
    show ?thesis
    proof (cases "ok \<and> routeLayer st = None \<and> renders data \<and> pickupMap st \<and> deliveryMap st \<and>
                  has_bounds data")
      case False
      with assms Response JSON show ?thesis
        by (simp add: route_primary_def Let_def split: if_splits)
    next
      case True
      show ?thesis
      proof (cases "segment0 data")
        case None
        with assms Response JSON True show ?thesis
          by (simp add: route_primary_def Let_def)
      next
        case (Some seg)
        with Response JSON True show ?thesis by simp
      qed
    qed
  qed
qed

lemma route_primary_Inr_explicit:
  assumes "route_primary v f st = Inr (r, st1)"
  shows "\<exists>data distance duration.
           f = Response True (JSON data) \<and> routeLayer st = None \<and> renders data \<and>
           has_bounds data \<and> segment0 data = Some (distance, duration) \<and>
           r = \<lparr>distanceKm = js_div_const distance 1000,
                 durationMin = Math_round (js_div_const duration 60),
                 costEstimate = primary_cost v (js_div_const distance 1000),
                 geometry = GeoJSON data, source = Primary\<rparr> \<and>
           st1 = showNotification ''Route calculated successfully!''
                   (st\<lparr>routeLayer := Some (GeoJSON data),
                       routeDistance := Figure (js_div_const distance 1000),
                       routeDuration := Figure (Math_round (js_div_const duration 60)),
                       routeCost := Figure (primary_cost v (js_div_const distance 1000))\<rparr>)"
proof (cases f)
  case Rejected
  with assms show ?thesis by (simp add: route_primary_def)
next
  case (Response ok b)
  show ?thesis
  proof (cases b)
    case NotJSON
    with assms Response show ?thesis by (simp add: route_primary_def split: if_splits)
  next
    case (JSON data)
    show ?thesis
    proof (cases "ok \<and> routeLayer st = None \<and> renders data \<and> pickupMap st \<and> deliveryMap st \<and>
                  has_bounds data")
      case False
      with assms Response JSON show ?thesis
        by (simp add: route_primary_def Let_def split: if_splits)
    next
      case True
      show ?thesis
      proof (cases "segment0 data")
        case None
        with assms Response JSON True show ?thesis
          by (simp add: route_primary_def Let_def)
      next
        case (Some seg)
        obtain distance duration where seg: "seg = (distance, duration)" by (cases seg)
        from assms Response JSON True Some seg show ?thesis
          by (simp add: route_primary_def Let_def)
      qed
    qed
  qed
qed

lemma route_primary_Inl_layer:
  assumes "route_primary v f st = Inl st1"
  shows "\<exists>l. st1 = st\<lparr>routeLayer := l\<rparr>"
proof (cases f)
  case Rejected
  with assms have "st1 = st\<lparr>routeLayer := routeLayer st\<rparr>" by (simp add: route_primary_def)
  then show ?thesis ..
next
  case (Response ok b)
  show ?thesis
  proof (cases b)
    case NotJSON
    with assms Response have "st1 = st\<lparr>routeLayer := routeLayer st\<rparr>"
      by (simp add: route_primary_def split: if_splits)
    then show ?thesis ..
  next
    case (JSON data)
    show ?thesis
    proof (cases "ok \<and> routeLayer st = None \<and> renders data \<and> pickupMap st \<and> deliveryMap st")
      case False
      with assms Response JSON have "st1 = st\<lparr>routeLayer := routeLayer st\<rparr>"
        by (simp add: route_primary_def split: if_splits)
      then show ?thesis ..
    next
      case True
      with assms Response JSON have "st1 = st\<lparr>routeLayer := Some (GeoJSON data)\<rparr>"
        by (simp add: route_primary_def Let_def split: if_splits option.splits prod.splits)
      then show ?thesis ..
    qed
  qed
qed

lemma route_primary_good:
  assumes "routeLayer st = None" and "pickupMap st" and "deliveryMap st"
    and "renders data" and "has_bounds data" and "segment0 data = Some seg"
  shows "\<exists>rs. route_primary v (Response True (JSON data)) st = Inr rs"
  using assms by (cases seg) (simp add: route_primary_def Let_def)

lemma route_primary_Inl_cause:
  assumes "route_primary v f st = Inl st1" and "pickupMap st" and "deliveryMap st"
  shows "\<not> (routeLayer st = None \<and>
            (\<exists>data seg. f = Response True (JSON data) \<and> renders data \<and> has_bounds data \<and>
                        segment0 data = Some seg))"
proof
  assume "routeLayer st = None \<and>
            (\<exists>data seg. f = Response True (JSON data) \<and> renders data \<and> has_bounds data \<and>
                        segment0 data = Some seg)"
  then obtain data seg where l: "routeLayer st = None" and f: "f = Response True (JSON data)"
    and d: "renders data" "has_bounds data" "segment0 data = Some seg"
    by blast
  from route_primary_good [OF l assms(2,3) d, of v] assms(1) show False by (simp add: f)
qed

lemma clearRoute_with_layer: "routeLayer st \<noteq> None \<Longrightarrow> clearRoute st = Aborted st"
  by (simp add: clearRoute_def)

lemma route_fallback_numeric:
  assumes "pickupMap st" and "deliveryMap st"
  shows "route_fallback v (Num a) (Num b) (Num c) (Num d) st =
     (Some \<lparr>distanceKm = calculateDistance (Num a) (Num b) (Num c) (Num d),
            durationMin = Math_round (js_mul (calculateDistance (Num a) (Num b) (Num c) (Num d)) (Num 3)),
            costEstimate = fallback_cost v (calculateDistance (Num a) (Num b) (Num c) (Num d)),
            geometry = Polyline \<lparr>lat = Num a, lng = Num b\<rparr> \<lparr>lat = Num c, lng = Num d\<rparr>,
            source = Fallback\<rparr>,
      showNotification ''Estimated route shown (straight-line fallback)''
        (st\<lparr>routeLayer := Some (Polyline \<lparr>lat = Num a, lng = Num b\<rparr> \<lparr>lat = Num c, lng = Num d\<rparr>),
            routeDistance := Figure (calculateDistance (Num a) (Num b) (Num c) (Num d)),
            routeDuration := Figure (Math_round
               (js_mul (calculateDistance (Num a) (Num b) (Num c) (Num d)) (Num 3))),
            routeCost := Figure (Math_round
               (fallback_cost v (calculateDistance (Num a) (Num b) (Num c) (Num d))))\<rparr>))"
  using assms by (simp add: route_fallback_def Let_def)


lemma detected_failure_falls_back:
  assumes "response = Rejected \<or> response = Response False b \<or> response = Response ok NotJSON \<or>
           (\<exists>data. response = Response ok (JSON data) \<and>
              (\<not> renders data \<or> \<not> has_bounds data \<or> segment0 data = None))"
    and "parse_coords (pickupCoordsHidden st) = (Num a, Num b')"
    and "parse_coords (deliveryCoordsHidden st) = (Num c, Num d)"
    and "pickupCoordsHidden st \<noteq> []" "pickupCoordsHidden st \<noteq> ''Not set''"
    and "deliveryCoordsHidden st \<noteq> []" "deliveryCoordsHidden st \<noteq> ''Not set''"
    and "vehicleType st \<noteq> []" and "pickupMap st" and "deliveryMap st"
  shows "fst (calculateRoute response st) =
     Some \<lparr>distanceKm = calculateDistance (Num a) (Num b') (Num c) (Num d),
           durationMin = Math_round (js_mul (calculateDistance (Num a) (Num b') (Num c) (Num d)) (Num 3)),
           costEstimate = fallback_cost (vehicleType st)
             (calculateDistance (Num a) (Num b') (Num c) (Num d)),
           geometry = Polyline \<lparr>lat = Num a, lng = Num b'\<rparr> \<lparr>lat = Num c, lng = Num d\<rparr>,
           source = Fallback\<rparr>"
proof -
  have "route_primary (vehicleType st) response st \<noteq> Inr rs" for rs
  proof
    assume "route_primary (vehicleType st) response st = Inr rs"
    from route_primary_Inr_response [OF this] assms(1) show False by auto
  qed
  then obtain st1 where p: "route_primary (vehicleType st) response st = Inl st1"
    by (cases "route_primary (vehicleType st) response st") auto
  from route_primary_Inl [OF p] assms(9,10) have m: "pickupMap st1" "deliveryMap st1" by simp_all
  have "fst (calculateRoute response st)
        = fst (route_fallback (vehicleType st) (Num a) (Num b') (Num c) (Num d) st1)"
    using assms(2-8) p by (simp add: calculateRoute_def Let_def)
  then show ?thesis by (simp add: route_fallback_numeric [OF m])
qed

section \<open>The invariant of reachable pages\<close>

lemma coords_text_is_set: "is_set (coords_text (toFixed6 (Num x)) b)"
  using toFixed6_chars(1,5) [of x]
  by (cases "toFixed6 (Num x)") (auto simp: is_set_def coords_text_def)

lemma stored_in_region_stored:
  assumes "contains UGANDA_BOUNDS \<lparr>lat = Num x, lng = Num y\<rparr>"
  shows "stored_in_region (coords_text (toFixed6 (Num x)) (toFixed6 (Num y)))"
  using contains_round6 [OF assms] by (simp add: stored_in_region_def parse_coords_stored)

lemma stored_in_region_numbers:
  assumes "stored_in_region coords"
  obtains x y where "parse_coords coords = (Num x, Num y)"
    and "contains UGANDA_BOUNDS \<lparr>lat = Num x, lng = Num y\<rparr>"
proof -
  obtain a b where p: "parse_coords coords = (a, b)" by (cases "parse_coords coords")
  from assms obtain x y where "a = Num x" "b = Num y"
    by (cases a; cases b) (simp_all add: stored_in_region_def p contains_def js_le_def)
  with assms p show thesis by (intro that [of x y]) (simp_all add: stored_in_region_def)
qed

lemma checkRouteAvailability_fields:
  "checkRouteAvailability st = st\<lparr>routeSection := routeSection (checkRouteAvailability st)\<rparr>"
  by (simp add: checkRouteAvailability_def Let_def)

lemma page_inv_routeSection: "page_inv (st\<lparr>routeSection := d\<rparr>) = page_inv st"
  by (simp add: page_inv_def role_inv_def map_of_role_def marker_of_role_def coords_of_role_def
      split: role.split)

lemma page_inv_check: "page_inv (checkRouteAvailability st) = page_inv st"
  by (subst checkRouteAvailability_fields) (simp only: page_inv_routeSection)

lemma page_inv_notify: "page_inv (showNotification m st) = page_inv st"
  by (simp add: page_inv_def role_inv_def map_of_role_def marker_of_role_def coords_of_role_def
      showNotification_def split: role.split)

lemmas inv_defs = page_inv_def role_inv_def map_of_role_def marker_of_role_def coords_of_role_def

lemma page_inv_fields:
  assumes "page_inv st"
    and "pickupMap st1 = pickupMap st" "deliveryMap st1 = deliveryMap st"
    and "pickupMarker st1 = pickupMarker st" "deliveryMarker st1 = deliveryMarker st"
    and "pickupCoordsHidden st1 = pickupCoordsHidden st"
    and "deliveryCoordsHidden st1 = deliveryCoordsHidden st"
    and "routeLayer st1 = routeLayer st \<or> (pickupMap st \<and> deliveryMap st)"
  shows "page_inv st1"
  using assms by (auto simp: inv_defs)

lemma page_inv_updateLocation:
  assumes "page_inv st" and "contains UGANDA_BOUNDS \<lparr>lat = Num x, lng = Num y\<rparr>"
  shows "page_inv (page_of (updateLocation \<lparr>lat = Num x, lng = Num y\<rparr> r st))"
proof (cases "marker_of_role r st = None")
  case True
  then show ?thesis using assms(1) by (simp add: updateLocation_def)
next
  case False
  with assms(1) have m: "map_of_role r st"
    by (cases r) (auto simp: page_inv_def role_inv_def)
  have "page_inv (store_location \<lparr>lat = Num x, lng = Num y\<rparr> r st)"
    using assms(1) m
    by (cases r)
       (simp_all add: store_location_def Let_def page_inv_def role_inv_def map_of_role_def
          marker_of_role_def coords_of_role_def stored_in_region_stored [OF assms(2)])
  then show ?thesis by (simp add: updateLocation_page [OF False] m page_inv_check)
qed

lemma page_inv_set_marker:
  assumes "page_inv st" and "map_of_role r st"
  shows "page_inv (set_marker r p st)"
  using assms by (cases r) (auto simp: inv_defs set_marker_def)

lemma page_inv_onMapClick:
  "page_inv st \<Longrightarrow> page_inv (page_of (onMapClick \<lparr>lat = Num x, lng = Num y\<rparr> r st))"
  by (cases "contains UGANDA_BOUNDS \<lparr>lat = Num x, lng = Num y\<rparr>")
     (simp_all add: onMapClick_def page_inv_notify page_inv_updateLocation)

lemma page_inv_onMarkGeocode:
  "page_inv st \<Longrightarrow> page_inv (page_of (onMarkGeocode \<lparr>lat = Num x, lng = Num y\<rparr> r st))"
  by (cases "contains UGANDA_BOUNDS \<lparr>lat = Num x, lng = Num y\<rparr>")
     (simp_all add: onMarkGeocode_def page_inv_notify page_inv_updateLocation)

lemma page_inv_onPosition:
  assumes "page_inv st"
  shows "page_inv (page_of (onPosition \<lparr>lat = Num x, lng = Num y\<rparr> r st))"
proof (cases "contains UGANDA_BOUNDS \<lparr>lat = Num x, lng = Num y\<rparr>")
  case False
  then show ?thesis using assms by (simp add: onPosition_def page_inv_notify)
next
  case True
  have "page_inv (page_of (updateLocation \<lparr>lat = Num x, lng = Num y\<rparr> r st))"
    using assms True by (rule page_inv_updateLocation)
  then show ?thesis
    using True by (auto simp: onPosition_def page_inv_notify split: outcome.split)
qed

lemma page_inv_onMarkerDragEnd:
  assumes "page_inv st" and "marker_of_role r st \<noteq> None"
  shows "page_inv (page_of (onMarkerDragEnd \<lparr>lat = Num x, lng = Num y\<rparr> r st))"
proof -
  from assms have m: "map_of_role r st" by (cases r) (auto simp: inv_defs)
  let ?p = "\<lparr>lat = Num x, lng = Num y\<rparr>"
  let ?st0 = "set_marker r ?p st"
  have 0: "page_inv ?st0" using assms(1) m by (rule page_inv_set_marker)
  have m0: "map_of_role r ?st0" using m by (cases r) (simp_all add: set_marker_def map_of_role_def)
  show ?thesis
  proof (cases "contains UGANDA_BOUNDS ?p")
    case True
    then show ?thesis
      using page_inv_updateLocation [OF 0 True, of r] by (simp add: onMarkerDragEnd_def Let_def)
  next
    case False
    let ?st1 = "showNotification ''Marker outside Uganda - resetting to last valid position.'' ?st0"
    have 1: "page_inv ?st1" using 0 by (simp only: page_inv_notify)
    have m1: "map_of_role r ?st1"
      using m0 by (cases r) (simp_all add: showNotification_def map_of_role_def)
    have "page_inv (set_marker r q ?st1)" for q using 1 m1 by (rule page_inv_set_marker)
    then show ?thesis
      using False 1 by (simp add: onMarkerDragEnd_def Let_def split: prod.split jsnum.split)
  qed
qed

lemma page_inv_clearLocation: "page_inv st \<Longrightarrow> page_inv (clearLocation r st)"
  by (cases r) (auto simp: clearLocation_def Let_def inv_defs set_marker_def is_set_def)

lemma page_inv_clearRoute: "page_inv st \<Longrightarrow> page_inv (page_of (clearRoute st))"
  by (auto simp: clearRoute_def page_inv_notify inv_defs)

lemma page_inv_initMaps: "page_inv st \<Longrightarrow> page_inv (initMaps pv dv st)"
  by (auto simp: initMaps_def Let_def inv_defs)

lemma page_inv_vehicle: "page_inv st \<Longrightarrow> page_inv (st\<lparr>vehicleType := v\<rparr>)"
  by (simp add: inv_defs)

lemma page_inv_initial: "initial_page st \<Longrightarrow> page_inv st"
  by (auto simp: initial_page_def inv_defs is_set_def)

lemma route_fallback_inv:
  assumes "page_inv st"
  shows "page_inv (snd (route_fallback v a b c d st))"
proof (cases "\<exists>a' b' c' d'. a = Num a' \<and> b = Num b' \<and> c = Num c' \<and> d = Num d'")
  case True
  then obtain a' b' c' d' where n: "a = Num a'" "b = Num b'" "c = Num c'" "d = Num d'" by blast
  show ?thesis
  proof (cases "pickupMap st \<and> deliveryMap st")
    case True
    then have m: "pickupMap st" "deliveryMap st" by simp_all
    show ?thesis
      unfolding n route_fallback_numeric [OF m]
      by (rule page_inv_fields [OF assms]) (simp_all add: m)
  next
    case False
    then show ?thesis using assms by (auto simp: n route_fallback_def Let_def)
  qed
next
  case False
  then have "route_fallback v a b c d st = (None, st)"
    by (cases a; cases b; cases c; cases d) (simp_all add: route_fallback_def Let_def)
  then show ?thesis using assms by simp
qed

lemma page_inv_calculateRoute:
  assumes "page_inv st"
  shows "page_inv (snd (calculateRoute f st))"
proof (cases "pickupCoordsHidden st = [] \<or> deliveryCoordsHidden st = [] \<or>
              pickupCoordsHidden st = ''Not set'' \<or> deliveryCoordsHidden st = ''Not set'' \<or>
              vehicleType st = []")
  case True
  then show ?thesis using assms by (auto simp: calculateRoute_def Let_def page_inv_notify)
next
  case False
  obtain pLat pLng where p: "parse_coords (pickupCoordsHidden st) = (pLat, pLng)"
    by (cases "parse_coords (pickupCoordsHidden st)")
  obtain dLat dLng where d: "parse_coords (deliveryCoordsHidden st) = (dLat, dLng)"
    by (cases "parse_coords (deliveryCoordsHidden st)")
  show ?thesis
  proof (cases "route_primary (vehicleType st) f st")
    case (Inl st1)
    have "page_inv st1"
      using route_primary_Inl [OF Inl] by (intro page_inv_fields [OF assms]) simp_all
    then have "page_inv (snd (route_fallback (vehicleType st) pLat pLng dLat dLng st1))"
      by (rule route_fallback_inv)
    then show ?thesis using False Inl by (simp add: calculateRoute_def Let_def p d)
  next
    case (Inr rs)
    obtain r st1 where rs: "rs = (r, st1)" by (cases rs)
    have "page_inv st1"
      using route_primary_Inr [OF Inr [unfolded rs]] by (intro page_inv_fields [OF assms]) simp_all
    then show ?thesis using False Inr rs by (simp add: calculateRoute_def Let_def p d)
  qed
qed

lemma reachable_page_inv: "reachable st \<Longrightarrow> page_inv st"
proof (induction rule: reachable.induct)
  case (start st)
  then show ?case by (rule page_inv_initial)
next
  case (maps st pv dv)
  then show ?case by (simp add: page_inv_initMaps)
next
  case (click st r x y)
  then show ?case by (simp add: page_inv_onMapClick)
next
  case (drag st r x y)
  then show ?case by (simp add: page_inv_onMarkerDragEnd)
next
  case (search st r x y)
  then show ?case by (simp add: page_inv_onMarkGeocode)
next
  case (position st x y r)
  then show ?case by (simp add: page_inv_onPosition)
next
  case (clear_location st r)
  then show ?case by (simp add: page_inv_clearLocation)
next
  case (clear_route st)
  then show ?case by (simp add: page_inv_clearRoute)
next
  case (route st response)
  then show ?case by (simp add: page_inv_calculateRoute)
next
  case (vehicle st v)
  then show ?case by (simp add: page_inv_vehicle)
qed

lemma reachable_set_location:
  assumes "reachable st" and "coords_of_role r st \<noteq> []" and "coords_of_role r st \<noteq> ''Not set''"
  obtains x y where "parse_coords (coords_of_role r st) = (Num x, Num y)" and "map_of_role r st"
    and "contains UGANDA_BOUNDS \<lparr>lat = Num x, lng = Num y\<rparr>"
proof -
  from assms(1) have "role_inv r st"
    using reachable_page_inv [of st] by (cases r) (simp_all add: page_inv_def)
  with assms(2,3) have m: "map_of_role r st" and n: "stored_in_region (coords_of_role r st)"
    by (auto simp: role_inv_def is_set_def)
  from n obtain x y where "parse_coords (coords_of_role r st) = (Num x, Num y)"
    and "contains UGANDA_BOUNDS \<lparr>lat = Num x, lng = Num y\<rparr>"
    by (rule stored_in_region_numbers)
  then show thesis using m by (intro that [of x y])
qed

lemma reachable_stored_haversine:
  assumes "reachable st"
    and "pickupCoordsHidden st \<noteq> []" and "pickupCoordsHidden st \<noteq> ''Not set''"
    and "deliveryCoordsHidden st \<noteq> []" and "deliveryCoordsHidden st \<noteq> ''Not set''"
  obtains a b c d where "parse_coords (pickupCoordsHidden st) = (Num a, Num b)"
    and "parse_coords (deliveryCoordsHidden st) = (Num c, Num d)"
    and "haversine_a a b c d \<le> 1 / 95"
proof -
  obtain a b where p: "parse_coords (pickupCoordsHidden st) = (Num a, Num b)"
    and "pickupMap st" and pr: "contains UGANDA_BOUNDS \<lparr>lat = Num a, lng = Num b\<rparr>"
    using reachable_set_location [OF assms(1), of Pickup] assms(2,3)
    by (auto simp: coords_of_role_def map_of_role_def)
  obtain c d where q: "parse_coords (deliveryCoordsHidden st) = (Num c, Num d)"
    and "deliveryMap st" and qr: "contains UGANDA_BOUNDS \<lparr>lat = Num c, lng = Num d\<rparr>"
    using reachable_set_location [OF assms(1), of Delivery] assms(4,5)
    by (auto simp: coords_of_role_def map_of_role_def)
  from p q haversine_a_region [OF pr qr] show thesis by (rule that)
qed

section \<open>The example pages, evaluated\<close>

lemma digits10_examples:
  "digits10 347600 = ''347600''" "digits10 32582500 = ''32582500''"
  "digits10 350000 = ''350000''" "digits10 32600000 = ''32600000''"
  by (simp_all add: digits10.simps digit_char_def)

lemma floor_examples:
  "nat \<lfloor>\<bar>0.3476 :: real\<bar> * 10 ^ 6 + 1 / 2\<rfloor> = 347600"
  "nat \<lfloor>\<bar>32.5825 :: real\<bar> * 10 ^ 6 + 1 / 2\<rfloor> = 32582500"
  "nat \<lfloor>\<bar>0.35 :: real\<bar> * 10 ^ 6 + 1 / 2\<rfloor> = 350000"
  "nat \<lfloor>\<bar>32.6 :: real\<bar> * 10 ^ 6 + 1 / 2\<rfloor> = 32600000"
  by simp_all

lemma toFixed6_points:
  "toFixed6 (lat pickup_point) = ''0.347600''" "toFixed6 (lng pickup_point) = ''32.582500''"
  "toFixed6 (lat delivery_point) = ''0.350000''" "toFixed6 (lng delivery_point) = ''32.600000''"
  unfolding pickup_point_def delivery_point_def latlng.simps toFixed6_def jsnum.case Let_def
    floor_examples digits10_examples
  by simp_all

lemma stored_points:
  "coords_text (toFixed6 (lat pickup_point)) (toFixed6 (lng pickup_point)) = ''0.347600, 32.582500''"
  "coords_text (toFixed6 (lat delivery_point)) (toFixed6 (lng delivery_point)) = ''0.350000, 32.600000''"
  by (simp_all add: toFixed6_points coords_text_def)

lemma parsed_points:
  "parse_coords ''0.347600, 32.582500'' = (lat pickup_point, lng pickup_point)"
  "parse_coords ''0.350000, 32.600000'' = (lat delivery_point, lng delivery_point)"
proof -
  have "parse_coords (coords_text (toFixed6 (Num 0.3476)) (toFixed6 (Num 32.5825)))
        = (Num (round6 0.3476), Num (round6 32.5825))"
    by (rule parse_coords_stored)
  then show "parse_coords ''0.347600, 32.582500'' = (lat pickup_point, lng pickup_point)"
    using stored_points(1) by (simp add: pickup_point_def round6_def)
  have "parse_coords (coords_text (toFixed6 (Num 0.35)) (toFixed6 (Num 32.6)))
        = (Num (round6 0.35), Num (round6 32.6))"
    by (rule parse_coords_stored)
  then show "parse_coords ''0.350000, 32.600000'' = (lat delivery_point, lng delivery_point)"
    using stored_points(2) by (simp add: delivery_point_def round6_def)
qed

lemma in_uganda_points:
  "contains UGANDA_BOUNDS pickup_point" "contains UGANDA_BOUNDS delivery_point"
  "\<not> contains UGANDA_BOUNDS outside_point"
  by (simp_all add: contains_def UGANDA_BOUNDS_def js_le_def pickup_point_def delivery_point_def
      outside_point_def)

lemma ready_page_eq: "initMaps True True blank_page = ready_page"
  by (simp add: initMaps_def blank_page_def ready_page_def checkRouteAvailability_def Let_def)

lemma pickup_set_page:
  "page_of (onMapClick pickup_point Pickup ready_page) =
     ready_page\<lparr>pickupMarker := Some pickup_point, pickupLat := ''0.347600'',
       pickupLng := ''32.582500'', pickupLink := mapLink ''0.347600'' ''32.582500'',
       pickupLinkHidden := mapLink ''0.347600'' ''32.582500'',
       pickupCoordsHidden := ''0.347600, 32.582500''\<rparr>"
  by (simp add: onMapClick_def in_uganda_points updateLocation_def store_location_def Let_def toFixed6_points
      marker_of_role_def map_of_role_def ready_page_def blank_page_def coords_text_def
      checkRouteAvailability_def)

lemma located_page_eq:
  "located_page =
     ready_page\<lparr>pickupMarker := Some pickup_point, pickupLat := ''0.347600'',
       pickupLng := ''32.582500'', pickupLink := mapLink ''0.347600'' ''32.582500'',
       pickupLinkHidden := mapLink ''0.347600'' ''32.582500'',
       pickupCoordsHidden := ''0.347600, 32.582500'',
       deliveryMarker := Some delivery_point, deliveryLat := ''0.350000'',
       deliveryLng := ''32.600000'', deliveryLink := mapLink ''0.350000'' ''32.600000'',
       deliveryLinkHidden := mapLink ''0.350000'' ''32.600000'',
       deliveryCoordsHidden := ''0.350000, 32.600000'',
       routeSection := DisplayBlock, vehicleType := ''car''\<rparr>"
  unfolding located_page_def ready_page_eq pickup_set_page
  by (simp add: onMapClick_def in_uganda_points updateLocation_def store_location_def Let_def toFixed6_points
      marker_of_role_def map_of_role_def ready_page_def blank_page_def coords_text_def
      checkRouteAvailability_def parsed_points latlng_eta)

lemma reachable_located_page: "reachable located_page"
  unfolding located_page_def pickup_point_def delivery_point_def
proof (intro reachable.vehicle reachable.click reachable.maps reachable.start)
  show "initial_page blank_page" by (simp add: initial_page_def blank_page_def)
  show "map_of_role Pickup (initMaps True True blank_page)"
    by (simp add: ready_page_eq ready_page_def map_of_role_def)
  show "map_of_role Delivery
     (page_of (onMapClick \<lparr>lat = Num 0.3476, lng = Num 32.5825\<rparr> Pickup (initMaps True True blank_page)))"
    unfolding ready_page_eq pickup_point_def [symmetric] pickup_set_page
    by (simp add: ready_page_def map_of_role_def)
qed


section \<open>The phone pattern\<close>

lemma strip_prefix_Some: "strip_prefix p s = Some r \<longleftrightarrow> s = p @ r"
proof
  assume "strip_prefix p s = Some r"
  then have "take (length p) s = p" and "r = drop (length p) s"
    by (auto simp: strip_prefix_def split: if_splits)
  then show "s = p @ r" using append_take_drop_id [of "length p" s] by simp
next
  assume "s = p @ r"
  then show "strip_prefix p s = Some r" by (simp add: strip_prefix_def)
qed

lemma phone_tail:
  "(case strip_prefix p s of None \<Rightarrow> False
    | Some r \<Rightarrow> (case r of [] \<Rightarrow> False
                | c # ds \<Rightarrow> c = CHR ''7'' \<and> length ds = 8 \<and> list_all is_digit ds))
   = (\<exists>rest. s = p @ CHR ''7'' # rest \<and> length rest = 8 \<and> list_all is_digit rest)"
proof (cases "strip_prefix p s")
  case None
  then have "s \<noteq> p @ r" for r using strip_prefix_Some [of p s r] by simp
  with None show ?thesis by auto
next
  case (Some r)
  then have s: "s = p @ r" by (simp add: strip_prefix_Some)
  have sp: "strip_prefix p (p @ r) = Some r" by (simp add: strip_prefix_def)
  show ?thesis unfolding s sp by (cases r) auto
qed

lemma phone_regex_test_pattern: "phone_regex_test s = phone_pattern s"
  by (auto simp: phone_regex_test_def phone_pattern_def list_ex_iff phone_tail)

section \<open>Pricing\<close>

text \<open>
  C1. For every distance \<open>d\<close> (non-negative or not) and every value of the vehicle select,
  the routed branch charges \<open>round (3000 + round d * rate)\<close> and the straight-line branch
  \<open>round (3000 + d * rate)\<close>, where the rate is 1500 for \<open>motorcycle\<close> and 4000 for any
  other value (the car); at \<open>d = 10\<close> both branches give 18000 for a motorcycle and 43000
  for a car; and the routed cost is the straight-line cost of the rounded distance, so the
  two differ exactly in rounding \<open>d\<close> before the multiplication.
\<close>

theorem pricing_formula:
  "primary_cost v (Num d) =
     Num (of_int (round (3000 + of_int (round d) * (if v = ''motorcycle'' then 1500 else 4000 :: real))))
   \<and> fallback_cost v (Num d) =
     Num (of_int (round (3000 + d * (if v = ''motorcycle'' then 1500 else 4000 :: real))))
   \<and> primary_cost ''motorcycle'' (Num 10) = Num 18000
   \<and> fallback_cost ''motorcycle'' (Num 10) = Num 18000
   \<and> primary_cost ''car'' (Num 10) = Num 43000
   \<and> fallback_cost ''car'' (Num 10) = Num 43000
   \<and> primary_cost v (Num d) = fallback_cost v (Math_round (Num d))"
  by (simp add: primary_cost_def fallback_cost_def Math_round_def js_add_def js_mul_def
      rate_for_def BASE_FEE_def RATE_MOTORCYCLE_def RATE_CAR_def round_def)

section \<open>Fallback values\<close>

text \<open>
  C2. When the provider call fails, the result is the straight-line estimate. The script
  detects a failure by an exception only: lemma \<open>detected_failure_falls_back\<close> shows the
  claimed result (source \<open>Fallback\<close>, the haversine distance of the two stored points, the
  duration \<open>round (distance * 3)\<close>, the cost \<open>round (3000 + distance * rate)\<close> on the
  distance as it is) for a rejected request, a response that is not \<open>ok\<close>, a body that is
  no JSON, a geometry the map library refuses and a payload without a first segment. A
  payload whose first segment exists but carries no numeric \<open>distance\<close> or \<open>duration\<close>
  raises nothing. The theorem runs the script on such a response, on a page with both
  points stored and the car selected: the routed branch completes, all three figures are
  \<open>NaN\<close>, and the message is that of a calculated route.
\<close>

theorem bare_segment_is_primary:
  "fst (calculateRoute bare_segment_response located_page) =
     Some \<lparr>distanceKm = NaN, durationMin = NaN, costEstimate = NaN,
           geometry = GeoJSON \<lparr>renders = True, has_bounds = True, segment0 = Some (NaN, NaN)\<rparr>,
           source = Primary\<rparr>
   \<and> routeCost (snd (calculateRoute bare_segment_response located_page)) = Figure NaN
   \<and> last (notifications (snd (calculateRoute bare_segment_response located_page)))
       = ''Route calculated successfully!''"
  by (simp add: calculateRoute_def route_primary_def bare_segment_response_def located_page_eq
      ready_page_def blank_page_def Let_def parsed_points primary_cost_def Math_round_def
      js_div_const_def js_add_def js_mul_def showNotification_def)

section \<open>Totality of route resolution\<close>

text \<open>
  C3. On every reachable page with both hidden coordinate fields set and a vehicle type
  selected, and for every outcome of the provider call that terminates, \<open>calculateRoute\<close>
  yields a result, tagged with the branch that produced it, and shows that result on the
  page. Either the answer is good and no route layer is shown yet: then the result is
  tagged \<open>Primary\<close>, its figures are those of the answer's first segment and its geometry the
  answer's. Or the answer is not of that kind, or a route layer is shown already: then the
  result is tagged \<open>Fallback\<close>, the two stored texts parse to points of the region, and the
  figures and the line are the straight-line estimate between them. In both cases the page
  returned is the page at the call with the result's layer and three figures written and
  the branch's message added.
\<close>

theorem route_resolution_total:
  assumes "reachable st"
    and "pickupCoordsHidden st \<noteq> []" and "pickupCoordsHidden st \<noteq> ''Not set''"
    and "deliveryCoordsHidden st \<noteq> []" and "deliveryCoordsHidden st \<noteq> ''Not set''"
    and "vehicleType st \<noteq> []"
  shows
    "(\<exists>data distance duration.
        response = Response True (JSON data) \<and> routeLayer st = None \<and> renders data \<and>
        has_bounds data \<and> segment0 data = Some (distance, duration) \<and>
        calculateRoute response st =
          (Some \<lparr>distanceKm = js_div_const distance 1000,
                  durationMin = Math_round (js_div_const duration 60),
                  costEstimate = primary_cost (vehicleType st) (js_div_const distance 1000),
                  geometry = GeoJSON data, source = Primary\<rparr>,
           showNotification ''Route calculated successfully!''
             (st\<lparr>routeLayer := Some (GeoJSON data),
                 routeDistance := Figure (js_div_const distance 1000),
                 routeDuration := Figure (Math_round (js_div_const duration 60)),
                 routeCost := Figure (primary_cost (vehicleType st) (js_div_const distance 1000))\<rparr>)))
     \<or> (\<not> (routeLayer st = None \<and>
            (\<exists>data seg. response = Response True (JSON data) \<and> renders data \<and> has_bounds data \<and>
                        segment0 data = Some seg)) \<and>
        (\<exists>a b c d.
           parse_coords (pickupCoordsHidden st) = (Num a, Num b) \<and>
           parse_coords (deliveryCoordsHidden st) = (Num c, Num d) \<and>
           contains UGANDA_BOUNDS \<lparr>lat = Num a, lng = Num b\<rparr> \<and>
           contains UGANDA_BOUNDS \<lparr>lat = Num c, lng = Num d\<rparr> \<and>
           calculateRoute response st =
             (Some \<lparr>distanceKm = calculateDistance (Num a) (Num b) (Num c) (Num d),
                     durationMin = Math_round
                       (js_mul (calculateDistance (Num a) (Num b) (Num c) (Num d)) (Num 3)),
                     costEstimate = fallback_cost (vehicleType st)
                       (calculateDistance (Num a) (Num b) (Num c) (Num d)),
                     geometry = Polyline \<lparr>lat = Num a, lng = Num b\<rparr> \<lparr>lat = Num c, lng = Num d\<rparr>,
                     source = Fallback\<rparr>,
              showNotification ''Estimated route shown (straight-line fallback)''
                (st\<lparr>routeLayer :=
                      Some (Polyline \<lparr>lat = Num a, lng = Num b\<rparr> \<lparr>lat = Num c, lng = Num d\<rparr>),
                    routeDistance := Figure (calculateDistance (Num a) (Num b) (Num c) (Num d)),
                    routeDuration := Figure (Math_round
                       (js_mul (calculateDistance (Num a) (Num b) (Num c) (Num d)) (Num 3))),
                    routeCost := Figure (fallback_cost (vehicleType st)
                       (calculateDistance (Num a) (Num b) (Num c) (Num d)))\<rparr>))))"
proof -
  obtain a b where p: "parse_coords (pickupCoordsHidden st) = (Num a, Num b)"
    and pm: "pickupMap st" and pr: "contains UGANDA_BOUNDS \<lparr>lat = Num a, lng = Num b\<rparr>"
    using reachable_set_location [OF assms(1), of Pickup] assms(2,3)
    by (auto simp: coords_of_role_def map_of_role_def)
  obtain c d where q: "parse_coords (deliveryCoordsHidden st) = (Num c, Num d)"
    and dm: "deliveryMap st" and qr: "contains UGANDA_BOUNDS \<lparr>lat = Num c, lng = Num d\<rparr>"
    using reachable_set_location [OF assms(1), of Delivery] assms(4,5)
    by (auto simp: coords_of_role_def map_of_role_def)
  show ?thesis
  proof (cases "route_primary (vehicleType st) response st")
    case (Inl st1)
    from route_primary_Inl_layer [OF Inl] obtain l where st1: "st1 = st\<lparr>routeLayer := l\<rparr>"
      by blast
    have m: "pickupMap st1" "deliveryMap st1" using pm dm by (simp_all add: st1)
    have c: "calculateRoute response st
             = route_fallback (vehicleType st) (Num a) (Num b) (Num c) (Num d) st1"
      using assms(2-6) Inl by (simp add: calculateRoute_def Let_def p q)
    have e: "calculateRoute response st =
             (Some \<lparr>distanceKm = calculateDistance (Num a) (Num b) (Num c) (Num d),
                     durationMin = Math_round
                       (js_mul (calculateDistance (Num a) (Num b) (Num c) (Num d)) (Num 3)),
                     costEstimate = fallback_cost (vehicleType st)
                       (calculateDistance (Num a) (Num b) (Num c) (Num d)),
                     geometry = Polyline \<lparr>lat = Num a, lng = Num b\<rparr> \<lparr>lat = Num c, lng = Num d\<rparr>,
                     source = Fallback\<rparr>,
              showNotification ''Estimated route shown (straight-line fallback)''
                (st\<lparr>routeLayer :=
                      Some (Polyline \<lparr>lat = Num a, lng = Num b\<rparr> \<lparr>lat = Num c, lng = Num d\<rparr>),
                    routeDistance := Figure (calculateDistance (Num a) (Num b) (Num c) (Num d)),
                    routeDuration := Figure (Math_round
                       (js_mul (calculateDistance (Num a) (Num b) (Num c) (Num d)) (Num 3))),
                    routeCost := Figure (fallback_cost (vehicleType st)
                       (calculateDistance (Num a) (Num b) (Num c) (Num d)))\<rparr>))"
      unfolding c route_fallback_numeric [OF m] fallback_cost_round
      by (simp add: st1 showNotification_def)
    note n = route_primary_Inl_cause [OF Inl pm dm]
    show ?thesis
      by (rule disjI2, rule conjI [OF n], intro exI conjI, rule p, rule q, rule pr, rule qr, rule e)
  next
    case (Inr rs)
    obtain r st1 where rs: "rs = (r, st1)" by (cases rs)
    from route_primary_Inr_explicit [OF Inr [unfolded rs]]
    obtain data distance duration where
      f: "response = Response True (JSON data)" "routeLayer st = None" "renders data"
        "has_bounds data" "segment0 data = Some (distance, duration)"
      and r: "r = \<lparr>distanceKm = js_div_const distance 1000,
                 durationMin = Math_round (js_div_const duration 60),
                 costEstimate = primary_cost (vehicleType st) (js_div_const distance 1000),
                 geometry = GeoJSON data, source = Primary\<rparr>"
      and s1: "st1 = showNotification ''Route calculated successfully!''
                   (st\<lparr>routeLayer := Some (GeoJSON data),
                       routeDistance := Figure (js_div_const distance 1000),
                       routeDuration := Figure (Math_round (js_div_const duration 60)),
                       routeCost := Figure (primary_cost (vehicleType st)
                                              (js_div_const distance 1000))\<rparr>)"
      by blast
    have "calculateRoute response st = (Some r, st1)"
      using assms(2-6) Inr rs by (simp add: calculateRoute_def Let_def p q)
    then have e: "calculateRoute response st =
          (Some \<lparr>distanceKm = js_div_const distance 1000,
                  durationMin = Math_round (js_div_const duration 60),
                  costEstimate = primary_cost (vehicleType st) (js_div_const distance 1000),
                  geometry = GeoJSON data, source = Primary\<rparr>,
           showNotification ''Route calculated successfully!''
             (st\<lparr>routeLayer := Some (GeoJSON data),
                 routeDistance := Figure (js_div_const distance 1000),
                 routeDuration := Figure (Math_round (js_div_const duration 60)),
                 routeCost := Figure (primary_cost (vehicleType st) (js_div_const distance 1000))\<rparr>))"
      by (simp only: r s1)
    show ?thesis
      by (rule disjI1, intro exI conjI, rule f(1), rule f(2), rule f(3), rule f(4), rule f(5),
          rule e)
  qed
qed

text \<open>
  The hypotheses hold on the page with both example points stored and the car selected.
  With an answer that measures 2500 m and 300 s the result is the routed one: 2.5 km,
  5 minutes, and 3000 + 3 * 4000 = 15000 for the car.
\<close>

theorem route_resolution_total_witness:
  "reachable located_page \<and>
   pickupCoordsHidden located_page \<noteq> [] \<and> pickupCoordsHidden located_page \<noteq> ''Not set'' \<and>
   deliveryCoordsHidden located_page \<noteq> [] \<and> deliveryCoordsHidden located_page \<noteq> ''Not set'' \<and>
   vehicleType located_page \<noteq> [] \<and>
   fst (calculateRoute measured_response located_page) =
     Some \<lparr>distanceKm = Num (5 / 2), durationMin = Num 5, costEstimate = Num 15000,
           geometry = GeoJSON \<lparr>renders = True, has_bounds = True,
                                segment0 = Some (Num 2500, Num 300)\<rparr>,
           source = Primary\<rparr> \<and>
   routeCost (snd (calculateRoute measured_response located_page)) = Figure (Num 15000)"
proof -
  have f: "pickupCoordsHidden located_page \<noteq> []" "pickupCoordsHidden located_page \<noteq> ''Not set''"
    "deliveryCoordsHidden located_page \<noteq> []" "deliveryCoordsHidden located_page \<noteq> ''Not set''"
    "vehicleType located_page \<noteq> []"
    by (simp_all add: located_page_eq)
  have l: "routeLayer located_page = None" "vehicleType located_page = ''car''"
    by (simp_all add: located_page_eq ready_page_def blank_page_def)
  have n: "js_div_const (Num 2500) 1000 = Num (5 / 2)"
    "Math_round (js_div_const (Num 300) 60) = Num 5"
    "primary_cost ''car'' (Num (5 / 2)) = Num 15000"
    by (simp_all add: js_div_const_def Math_round_def primary_cost_def js_add_def js_mul_def
        rate_for_def RATE_CAR_def BASE_FEE_def)
  from route_resolution_total [OF reachable_located_page f, of measured_response]
  have "fst (calculateRoute measured_response located_page) =
     Some \<lparr>distanceKm = Num (5 / 2), durationMin = Num 5, costEstimate = Num 15000,
           geometry = GeoJSON \<lparr>renders = True, has_bounds = True,
                                segment0 = Some (Num 2500, Num 300)\<rparr>,
           source = Primary\<rparr> \<and>
   routeCost (snd (calculateRoute measured_response located_page)) = Figure (Num 15000)"
    by (auto simp: measured_response_def l n showNotification_def)
  with reachable_located_page f show ?thesis by simp
qed

section \<open>Clearing a location\<close>





section \<open>The boundary predicate\<close>

text \<open>
  C5. \<open>contains\<close> is the predicate \<open>south <= latitude <= north\<close> and
  \<open>west <= longitude <= east\<close>, with the region of the script \<open>-1.5, 29.5, 4.9, 35.1\<close>; it
  is false when a coordinate is \<open>NaN\<close>. It is a function of the region and the point
  alone, so it has no effect on the page and no failure. The predicate is the one the
  specification gives: the method itself belongs to the map library.
\<close>

theorem contains_is_box_predicate:
  "contains region \<lparr>lat = Num la, lng = Num lo\<rparr>
     = (south region \<le> la \<and> la \<le> north region \<and> west region \<le> lo \<and> lo \<le> east region)
   \<and> contains UGANDA_BOUNDS \<lparr>lat = Num la, lng = Num lo\<rparr>
     = (- 1.5 \<le> la \<and> la \<le> 4.9 \<and> 29.5 \<le> lo \<and> lo \<le> 35.1)
   \<and> contains region \<lparr>lat = NaN, lng = y\<rparr> = False
   \<and> contains region \<lparr>lat = x, lng = NaN\<rparr> = False"
  by (cases x) (simp_all add: contains_def js_le_def UGANDA_BOUNDS_def)

section \<open>Readiness\<close>


section \<open>Rejected selections\<close>

text \<open>
  C8. A point that fails the boundary check is rejected by each of the four ways of
  selecting it. A click, a search result and a device position leave the page as it was
  but for one more notification. A drag puts the marker back and notifies. In all four
  the entry of every role in the location store is unchanged.
\<close>

theorem rejected_selection_keeps_store:
  assumes "\<not> contains UGANDA_BOUNDS p"
  shows "onMapClick p r st = Completed (showNotification
           ''Location outside Uganda - pick a point inside Uganda.'' st)
     \<and> onMarkGeocode p r st = Completed (showNotification
           ''Search result is outside Uganda - please pick a location inside Uganda.'' st)
     \<and> onPosition p r st = Completed (showNotification
           ''Your current location is outside Uganda. Please set a location inside Uganda.'' st)
     \<and> notifications (page_of (onMarkerDragEnd p r st))
         = notifications st @ [''Marker outside Uganda - resetting to last valid position.'']
     \<and> location_entry t (page_of (onMapClick p r st)) = location_entry t st
     \<and> location_entry t (page_of (onMarkGeocode p r st)) = location_entry t st
     \<and> location_entry t (page_of (onPosition p r st)) = location_entry t st
     \<and> location_entry t (page_of (onMarkerDragEnd p r st)) = location_entry t st"
proof (intro conjI)
qed (rule out_of_bounds_handlers [OF assms])+

theorem rejected_selection_keeps_store_witness:
  "\<not> contains UGANDA_BOUNDS outside_point \<and>
   onMapClick outside_point Pickup located_page = Completed (showNotification
      ''Location outside Uganda - pick a point inside Uganda.'' located_page) \<and>
   location_entry Pickup (page_of (onMarkerDragEnd outside_point Pickup located_page))
     = [''0.347600'', ''32.582500'', mapLink ''0.347600'' ''32.582500'',
        mapLink ''0.347600'' ''32.582500'', ''0.347600, 32.582500'']"
proof -
  have e: "location_entry Pickup located_page
     = [''0.347600'', ''32.582500'', mapLink ''0.347600'' ''32.582500'',
        mapLink ''0.347600'' ''32.582500'', ''0.347600, 32.582500'']"
    by (simp add: location_entry_def located_page_eq)
  from rejected_selection_keeps_store [OF in_uganda_points(3), of Pickup located_page Pickup]
  show ?thesis using in_uganda_points(3) by (simp add: e)
qed

section \<open>Stored points are rounded\<close>

text \<open>
  C9. After a pickup point and a delivery point have been accepted, the fields of each
  role hold the \<open>toFixed(6)\<close> renderings of the selected latitude and longitude. What
  \<open>calculateRoute\<close> then computes with is parsed from these texts: the coordinates of the
  request to the provider, and the distance, duration, cost and line of the fallback
  branch, are those of the points rounded to six decimals, not of the points selected.
\<close>

theorem stored_point_is_rounded:
  assumes "pickupMarker st \<noteq> None" and "deliveryMarker st \<noteq> None"
    and "pickupMap st" and "deliveryMap st" and "vehicleType st \<noteq> []"
  shows
    "location_entry Pickup (select_both \<lparr>lat = Num x1, lng = Num y1\<rparr> \<lparr>lat = Num x2, lng = Num y2\<rparr> st)
       = [toFixed6 (Num x1), toFixed6 (Num y1),
          mapLink (toFixed6 (Num x1)) (toFixed6 (Num y1)),
          mapLink (toFixed6 (Num x1)) (toFixed6 (Num y1)),
          coords_text (toFixed6 (Num x1)) (toFixed6 (Num y1))]
     \<and> location_entry Delivery (select_both \<lparr>lat = Num x1, lng = Num y1\<rparr> \<lparr>lat = Num x2, lng = Num y2\<rparr> st)
       = [toFixed6 (Num x2), toFixed6 (Num y2),
          mapLink (toFixed6 (Num x2)) (toFixed6 (Num y2)),
          mapLink (toFixed6 (Num x2)) (toFixed6 (Num y2)),
          coords_text (toFixed6 (Num x2)) (toFixed6 (Num y2))]
     \<and> request_coordinates (select_both \<lparr>lat = Num x1, lng = Num y1\<rparr> \<lparr>lat = Num x2, lng = Num y2\<rparr> st)
       = [(Num (round6 y1), Num (round6 x1)), (Num (round6 y2), Num (round6 x2))]
     \<and> fst (calculateRoute Rejected
              (select_both \<lparr>lat = Num x1, lng = Num y1\<rparr> \<lparr>lat = Num x2, lng = Num y2\<rparr> st))
       = Some \<lparr>distanceKm = Num (calculateDistance_real (round6 x1) (round6 y1) (round6 x2) (round6 y2)),
               durationMin = Math_round (Num
                 (calculateDistance_real (round6 x1) (round6 y1) (round6 x2) (round6 y2) * 3)),
               costEstimate = fallback_cost (vehicleType st) (Num
                 (calculateDistance_real (round6 x1) (round6 y1) (round6 x2) (round6 y2))),
               geometry = Polyline \<lparr>lat = Num (round6 x1), lng = Num (round6 y1)\<rparr>
                                   \<lparr>lat = Num (round6 x2), lng = Num (round6 y2)\<rparr>,
               source = Fallback\<rparr>"
proof -
  let ?p = "\<lparr>lat = Num x1, lng = Num y1\<rparr>" and ?d = "\<lparr>lat = Num x2, lng = Num y2\<rparr>"
  let ?st1 = "page_of (updateLocation ?p Pickup st)"
  let ?st2 = "select_both ?p ?d st"
  have mp: "marker_of_role Pickup st \<noteq> None" using assms(1) by (simp add: marker_of_role_def)
  have "marker_of_role Delivery st \<noteq> None" using assms(2) by (simp add: marker_of_role_def)
  then have md: "marker_of_role Delivery ?st1 \<noteq> None" by (rule updateLocation_stores(4) [OF mp])
  have st2: "?st2 = page_of (updateLocation ?d Delivery ?st1)" by (simp add: select_both_def)
  have e1: "location_entry Pickup ?st2 = location_entry Pickup ?st1"
    unfolding st2 by (rule updateLocation_stores(6) [OF md]) simp
  have P: "location_entry Pickup ?st2
       = [toFixed6 (Num x1), toFixed6 (Num y1),
          mapLink (toFixed6 (Num x1)) (toFixed6 (Num y1)),
          mapLink (toFixed6 (Num x1)) (toFixed6 (Num y1)),
          coords_text (toFixed6 (Num x1)) (toFixed6 (Num y1))]"
    unfolding e1 using updateLocation_stores(1) [OF mp, of ?p] by simp
  have D: "location_entry Delivery ?st2
       = [toFixed6 (Num x2), toFixed6 (Num y2),
          mapLink (toFixed6 (Num x2)) (toFixed6 (Num y2)),
          mapLink (toFixed6 (Num x2)) (toFixed6 (Num y2)),
          coords_text (toFixed6 (Num x2)) (toFixed6 (Num y2))]"
    unfolding st2 using updateLocation_stores(1) [OF md, of ?d] by simp
  from P have pc: "pickupCoordsHidden ?st2 = coords_text (toFixed6 (Num x1)) (toFixed6 (Num y1))"
    by (simp add: location_entry_def)
  from D have dc: "deliveryCoordsHidden ?st2 = coords_text (toFixed6 (Num x2)) (toFixed6 (Num y2))"
    by (simp add: location_entry_def)
  have pp: "parse_coords (pickupCoordsHidden ?st2) = (Num (round6 x1), Num (round6 y1))"
    unfolding pc by (rule parse_coords_stored)
  have dp: "parse_coords (deliveryCoordsHidden ?st2) = (Num (round6 x2), Num (round6 y2))"
    unfolding dc by (rule parse_coords_stored)
  have R: "request_coordinates ?st2
           = [(Num (round6 y1), Num (round6 x1)), (Num (round6 y2), Num (round6 x2))]"
    by (simp add: request_coordinates_def pp dp)
  have set: "pickupCoordsHidden ?st2 \<noteq> []" "pickupCoordsHidden ?st2 \<noteq> ''Not set''"
    "deliveryCoordsHidden ?st2 \<noteq> []" "deliveryCoordsHidden ?st2 \<noteq> ''Not set''"
    using coords_text_is_set [of x1 "toFixed6 (Num y1)"] coords_text_is_set [of x2 "toFixed6 (Num y2)"]
    by (simp_all add: pc dc is_set_def)
  have v: "vehicleType ?st2 = vehicleType st"
    unfolding st2 by (simp add: updateLocation_stores(5) [OF md] updateLocation_stores(5) [OF mp])
  have m: "pickupMap ?st2" "deliveryMap ?st2"
    unfolding st2
    by (simp_all add: updateLocation_stores(2,3) [OF md] updateLocation_stores(2,3) [OF mp] assms(3,4))
  have F: "fst (calculateRoute Rejected ?st2)
       = Some \<lparr>distanceKm = Num (calculateDistance_real (round6 x1) (round6 y1) (round6 x2) (round6 y2)),
               durationMin = Math_round (Num
                 (calculateDistance_real (round6 x1) (round6 y1) (round6 x2) (round6 y2) * 3)),
               costEstimate = fallback_cost (vehicleType st) (Num
                 (calculateDistance_real (round6 x1) (round6 y1) (round6 x2) (round6 y2))),
               geometry = Polyline \<lparr>lat = Num (round6 x1), lng = Num (round6 y1)\<rparr>
                                   \<lparr>lat = Num (round6 x2), lng = Num (round6 y2)\<rparr>,
               source = Fallback\<rparr>"
    using detected_failure_falls_back [OF _ pp dp set _ m, of Rejected] assms(5)
    by (simp add: v js_mul_def)
  from P D R F show ?thesis by (intro conjI)
qed

text \<open>
  A pickup latitude of 0.34760049 is requested as 0.3476.
\<close>

theorem stored_point_is_rounded_witness:
  "pickupMarker (ready_page\<lparr>vehicleType := ''car''\<rparr>) \<noteq> None \<and>
   deliveryMarker (ready_page\<lparr>vehicleType := ''car''\<rparr>) \<noteq> None \<and>
   pickupMap (ready_page\<lparr>vehicleType := ''car''\<rparr>) \<and>
   deliveryMap (ready_page\<lparr>vehicleType := ''car''\<rparr>) \<and>
   vehicleType (ready_page\<lparr>vehicleType := ''car''\<rparr>) \<noteq> [] \<and>
   request_coordinates
     (select_both \<lparr>lat = Num 0.34760049, lng = Num 32.5825\<rparr> \<lparr>lat = Num 0.35, lng = Num 32.6\<rparr>
        (ready_page\<lparr>vehicleType := ''car''\<rparr>))
     = [(Num 32.5825, Num 0.3476), (Num 32.6, Num 0.35)]"
proof -
  let ?st = "ready_page\<lparr>vehicleType := ''car''\<rparr>"
  have h: "pickupMarker ?st \<noteq> None" "deliveryMarker ?st \<noteq> None" "pickupMap ?st"
    "deliveryMap ?st" "vehicleType ?st \<noteq> []"
    by (simp_all add: ready_page_def)
  have r: "round6 0.34760049 = 0.3476" "round6 32.5825 = 32.5825" "round6 0.35 = 0.35"
    "round6 32.6 = 32.6"
    by (simp_all add: round6_def)
  from stored_point_is_rounded [OF h, of "0.34760049" "32.5825" "0.35" "32.6"]
  have "request_coordinates
     (select_both \<lparr>lat = Num 0.34760049, lng = Num 32.5825\<rparr> \<lparr>lat = Num 0.35, lng = Num 32.6\<rparr> ?st)
     = [(Num (round6 32.5825), Num (round6 0.34760049)), (Num (round6 32.6), Num (round6 0.35))]"
    by (elim conjE)
  then show ?thesis using h unfolding r by (intro conjI)
qed

section \<open>Phone validation\<close>

text \<open>
  C10. \<open>ugPhoneValid\<close> accepts a value exactly when the value without its white space
  (the characters of \<open>\s\<close>, spaces among them) and hyphens matches the phone pattern; and
  when the sender's or the recipient's phone fails it, the submit handler stops with a
  message before the request is sent.
\<close>

theorem phone_validation:
  "ugPhoneValid v = phone_pattern (filter (\<lambda>c. \<not> is_js_space c \<and> c \<noteq> CHR ''-'') v) \<and>
   (\<not> ugPhoneValid (senderPhone f) \<or> \<not> ugPhoneValid (recipientPhone f)
      \<longrightarrow> submit f \<noteq> Sent \<and> (\<exists>m. submit f = Refused m))"
proof
  have "\<not> phone_pattern []" by (simp add: phone_pattern_def)
  then show "ugPhoneValid v = phone_pattern (filter (\<lambda>c. \<not> is_js_space c \<and> c \<noteq> CHR ''-'') v)"
    by (simp add: ugPhoneValid_def phone_regex_test_pattern)
  show "\<not> ugPhoneValid (senderPhone f) \<or> \<not> ugPhoneValid (recipientPhone f)
      \<longrightarrow> submit f \<noteq> Sent \<and> (\<exists>m. submit f = Refused m)"
    by (auto simp: submit_def)
qed

theorem phone_validation_witness:
  "ugPhoneValid ''+256 712-345678'' \<and> \<not> ugPhoneValid ''0812345678'' \<and>
   \<not> ugPhoneValid (senderPhone (good_form\<lparr>senderPhone := ''0812345678''\<rparr>)) \<and>
   submit (good_form\<lparr>senderPhone := ''0812345678''\<rparr>)
     = Refused ''Sender phone must be a valid Ugandan number (e.g. +2567...)'' \<and>
   submit good_form = Sent"
proof -
  have v: "ugPhoneValid ''+256 712-345678''" "ugPhoneValid ''0712345678''"
    "\<not> ugPhoneValid ''0812345678''"
    by (simp_all add: ugPhoneValid_def phone_regex_test_def strip_prefix_def is_js_space_def
        is_digit_def)
  have t: "\<not> list_ex (\<lambda>v. trim v = []) (required_values (good_form\<lparr>senderPhone := p\<rparr>))"
    if "trim p \<noteq> []" for p
    using that by (simp add: required_values_def good_form_def trim_def is_js_space_def)
  have "trim ''0812345678'' \<noteq> []" "trim ''+256 712-345678'' \<noteq> []"
    by (simp_all add: trim_def is_js_space_def)
  then have r: "\<not> list_ex (\<lambda>v. trim v = []) (required_values (good_form\<lparr>senderPhone := ''0812345678''\<rparr>))"
    "\<not> list_ex (\<lambda>v. trim v = []) (required_values good_form)"
    using t [of "''0812345678''"] t [of "''+256 712-345678''"] by (simp_all add: good_form_def)
  have s: "submit (good_form\<lparr>senderPhone := ''0812345678''\<rparr>)
           = Refused ''Sender phone must be a valid Ugandan number (e.g. +2567...)''"
    using r(1) v(3) by (simp add: submit_def)
  have g: "submit good_form = Sent"
    using r(2) v(1,2) by (simp add: submit_def good_form_def)
  from phone_validation [of "''+256 712-345678''" "good_form\<lparr>senderPhone := ''0812345678''\<rparr>"]
  show ?thesis using v s g by simp
qed

end
